theory Spec2Isabelle
  imports Main "HOL-Library.Word" "HOL-Library.Char_ord" "HOL-Library.List_Lexorder"
begin

section \<open>Go values as seen through \<^verbatim>\<open>interface{}\<close> and package reflect\<close>

text \<open>
  The library works on arguments of type \<^verbatim>\<open>interface{}\<close> and inspects them with
  package \<^verbatim>\<open>reflect\<close>. The embedding therefore starts with a universe of Go values
  that carry their dynamic type. Package \<^verbatim>\<open>reflect\<close>, \<^verbatim>\<open>time\<close>, \<^verbatim>\<open>strings\<close> and
  \<^verbatim>\<open>unicode/utf8\<close> belong to Go's standard library, not to this repository; the
  functions of theirs that the code calls are modelled after their documented behaviour
  and keep their Go names.
\<close>

subsection \<open>Kinds and types\<close>

text \<open>\<^verbatim>\<open>reflect.Kind\<close>, all 27 of them.\<close>

datatype Kind =
    Invalid | KBool
  | KInt | KInt8 | KInt16 | KInt32 | KInt64
  | KUint | KUint8 | KUint16 | KUint32 | KUint64 | KUintptr
  | KFloat32 | KFloat64 | KComplex64 | KComplex128
  | KArray | KChan | KFunc | KInterface | KMap | KPtr | KSlice | KString | KStruct
  | KUnsafePointer

text \<open>
  \<^verbatim>\<open>reflect.Type\<close>. \<open>TNone\<close> stands for the nil Type that \<^verbatim>\<open>reflect.TypeOf(nil)\<close>
  returns. \<open>TTime\<close> is the struct type \<^verbatim>\<open>time.Time\<close>; any other struct type is given by
  its name and the types of its fields. A function type is given by its signature, as text.
\<close>

datatype gtype =
    TNone | TBool
  | TInt | TInt8 | TInt16 | TInt32 | TInt64
  | TUint | TUint8 | TUint16 | TUint32 | TUint64 | TUintptr
  | TFloat32 | TFloat64
  | TString | TTime
  | TStruct string "gtype list"
  | TArray nat gtype
  | TSlice gtype
  | TPtr gtype
  | TMap gtype gtype
  | TFunc string
  | TChan gtype
  | TInterface

subsection \<open>Scalars\<close>

text \<open>
  Fixed-width integers are words of their width; \<^verbatim>\<open>int\<close>, \<^verbatim>\<open>uint\<close> and \<^verbatim>\<open>uintptr\<close>
  have 64 bits (as on every 64-bit platform Go supports). A float is its IEEE-754 bit
  pattern. A string is its sequence of bytes.
\<close>

datatype scalar =
    SBool bool
  | SInt "64 word" | SInt8 "8 word" | SInt16 "16 word" | SInt32 "32 word" | SInt64 "64 word"
  | SUint "64 word" | SUint8 "8 word" | SUint16 "16 word" | SUint32 "32 word"
  | SUint64 "64 word" | SUintptr "64 word"
  | SFloat32 "32 word" | SFloat64 "64 word"
  | SString string

subsection \<open>IEEE-754 comparison on bit patterns\<close>

text \<open>
  A \<^verbatim>\<open>float64\<close> is a sign bit, 11 bits of exponent and 52 bits of mantissa, read off
  the unsigned value of its 64 bits. It is a NaN when the exponent is all ones and the
  mantissa is not zero.
\<close>

definition f64_sign :: "64 word \<Rightarrow> bool" where
  "f64_sign w \<longleftrightarrow> 2 ^ 63 \<le> unat w"

definition f64_exponent :: "64 word \<Rightarrow> nat" where
  "f64_exponent w = (unat w div 2 ^ 52) mod 2 ^ 11"

definition f64_mantissa :: "64 word \<Rightarrow> nat" where
  "f64_mantissa w = unat w mod 2 ^ 52"

definition f64_isNaN :: "64 word \<Rightarrow> bool" where
  "f64_isNaN w \<longleftrightarrow> f64_exponent w = 2047 \<and> f64_mantissa w \<noteq> 0"

text \<open>
  Go's \<^verbatim>\<open>==\<close>, \<^verbatim>\<open><\<close>, \<^verbatim>\<open><=\<close> on \<^verbatim>\<open>float64\<close>: a NaN compares false with everything,
  itself included; otherwise the order is that of sign and magnitude (the 63 bits below
  the sign), with \<open>+0\<close> and \<open>-0\<close> equal.
\<close>

definition f64_key :: "64 word \<Rightarrow> int" where
  "f64_key w = (if f64_sign w then - int (unat w mod 2 ^ 63) else int (unat w mod 2 ^ 63))"

definition f64_eq :: "64 word \<Rightarrow> 64 word \<Rightarrow> bool" where
  "f64_eq a b \<longleftrightarrow> \<not> f64_isNaN a \<and> \<not> f64_isNaN b \<and> f64_key a = f64_key b"

definition f64_lt :: "64 word \<Rightarrow> 64 word \<Rightarrow> bool" where
  "f64_lt a b \<longleftrightarrow> \<not> f64_isNaN a \<and> \<not> f64_isNaN b \<and> f64_key a < f64_key b"

definition f64_le :: "64 word \<Rightarrow> 64 word \<Rightarrow> bool" where
  "f64_le a b \<longleftrightarrow> \<not> f64_isNaN a \<and> \<not> f64_isNaN b \<and> f64_key a \<le> f64_key b"

text \<open>The same for \<^verbatim>\<open>float32\<close>: 8 bits of exponent, 23 bits of mantissa.\<close>

definition f32_sign :: "32 word \<Rightarrow> bool" where
  "f32_sign w \<longleftrightarrow> 2 ^ 31 \<le> unat w"

definition f32_exponent :: "32 word \<Rightarrow> nat" where
  "f32_exponent w = (unat w div 2 ^ 23) mod 2 ^ 8"

definition f32_mantissa :: "32 word \<Rightarrow> nat" where
  "f32_mantissa w = unat w mod 2 ^ 23"

definition f32_isNaN :: "32 word \<Rightarrow> bool" where
  "f32_isNaN w \<longleftrightarrow> f32_exponent w = 255 \<and> f32_mantissa w \<noteq> 0"

definition f32_key :: "32 word \<Rightarrow> int" where
  "f32_key w = (if f32_sign w then - int (unat w mod 2 ^ 31) else int (unat w mod 2 ^ 31))"

definition f32_eq :: "32 word \<Rightarrow> 32 word \<Rightarrow> bool" where
  "f32_eq a b \<longleftrightarrow> \<not> f32_isNaN a \<and> \<not> f32_isNaN b \<and> f32_key a = f32_key b"

text \<open>
  The conversion \<^verbatim>\<open>float64(f)\<close> of a \<^verbatim>\<open>float32\<close>, which is exact: the exponent is
  rebiased (127 to 1023) and the mantissa moved up by 29 bits; a subnormal \<^verbatim>\<open>float32\<close>
  is a normal \<^verbatim>\<open>float64\<close>, found from the position \<open>p\<close> of its highest mantissa bit;
  infinities and NaNs keep an exponent of all ones.
\<close>

definition f64_pack :: "bool \<Rightarrow> nat \<Rightarrow> nat \<Rightarrow> 64 word" where
  "f64_pack s e m = of_nat ((if s then 2 ^ 63 else 0) + e * 2 ^ 52 + m)"

fun top_bit :: "nat \<Rightarrow> nat" where
  "top_bit n = (if n < 2 then 0 else Suc (top_bit (n div 2)))"

declare top_bit.simps [simp del]

definition f32_to_f64 :: "32 word \<Rightarrow> 64 word" where
  "f32_to_f64 w =
     (let s = f32_sign w; e = f32_exponent w; m = f32_mantissa w
      in if e = 255 then f64_pack s 2047 (m * 2 ^ 29)
         else if e = 0 then
           (if m = 0 then f64_pack s 0 0
            else let p = top_bit m in f64_pack s (p + 874) ((m - 2 ^ p) * 2 ^ (52 - p)))
         else f64_pack s (e + 896) (m * 2 ^ 29))"

subsection \<open>time.Time\<close>

text \<open>
  A \<^verbatim>\<open>time.Time\<close> is an instant together with the location it is displayed in. The
  instant is \<open>sec\<close> seconds since January 1 of year 1, 00:00:00 UTC (what Go's
  \<^verbatim>\<open>t.sec()\<close> returns) plus \<open>nsec\<close> nanoseconds, \<open>0 \<le> nsec < 10^9\<close>. The location is a
  pointer in Go; \<open>None\<close> is the nil pointer, which means UTC. Monotonic clock readings
  are not modelled.
\<close>

datatype Location = Location string int

record Time =
  sec :: int
  nsec :: nat
  loc :: "Location option"

definition Time_Equal :: "Time \<Rightarrow> Time \<Rightarrow> bool" where
  "Time_Equal t u \<longleftrightarrow> sec t = sec u \<and> nsec t = nsec u"

definition Time_Before :: "Time \<Rightarrow> Time \<Rightarrow> bool" where
  "Time_Before t u \<longleftrightarrow> sec t < sec u \<or> sec t = sec u \<and> nsec t < nsec u"

definition Time_After :: "Time \<Rightarrow> Time \<Rightarrow> bool" where
  "Time_After t u \<longleftrightarrow> sec t > sec u \<or> sec t = sec u \<and> nsec t > nsec u"

subsection \<open>Values\<close>

text \<open>
  \<open>VNil\<close> is the nil interface value, and also the zero \<^verbatim>\<open>reflect.Value\<close> that
  \<^verbatim>\<open>reflect.ValueOf(nil)\<close> returns. A pointer, slice, map, channel or function value
  carries the address it refers to, since \<^verbatim>\<open>reflect.DeepEqual\<close> compares addresses
  before contents; next to the address stands what is stored there. \<open>VIface v\<close> is a
  variable, field or element of static type \<^verbatim>\<open>interface{}\<close> that holds \<open>v\<close> (\<open>VNil\<close>
  when it holds nothing); the arguments of the library's functions are never of this
  form, since passing a value as \<^verbatim>\<open>interface{}\<close> yields its dynamic value. Complex
  numbers, unsafe pointers, cyclic data and named types other than structs are not
  modelled.
\<close>

type_synonym addr = nat

datatype gval =
    VNil
  | VScalar scalar
  | VTime Time
  | VStruct string "gval list"
  | VArray gtype "gval list"
  | VSlice gtype addr "gval list"
  | VNilSlice gtype
  | VPtr addr gval
  | VNilPtr gtype
  | VMap gtype gtype addr "(gval \<times> gval) list"
  | VNilMap gtype gtype
  | VFunc string "addr option"
  | VChan gtype "addr option" nat
  | VIface gval

fun scalar_Kind :: "scalar \<Rightarrow> Kind" where
  "scalar_Kind (SBool _) = KBool"
| "scalar_Kind (SInt _) = KInt"
| "scalar_Kind (SInt8 _) = KInt8"
| "scalar_Kind (SInt16 _) = KInt16"
| "scalar_Kind (SInt32 _) = KInt32"
| "scalar_Kind (SInt64 _) = KInt64"
| "scalar_Kind (SUint _) = KUint"
| "scalar_Kind (SUint8 _) = KUint8"
| "scalar_Kind (SUint16 _) = KUint16"
| "scalar_Kind (SUint32 _) = KUint32"
| "scalar_Kind (SUint64 _) = KUint64"
| "scalar_Kind (SUintptr _) = KUintptr"
| "scalar_Kind (SFloat32 _) = KFloat32"
| "scalar_Kind (SFloat64 _) = KFloat64"
| "scalar_Kind (SString _) = KString"

fun scalar_Type :: "scalar \<Rightarrow> gtype" where
  "scalar_Type (SBool _) = TBool"
| "scalar_Type (SInt _) = TInt"
| "scalar_Type (SInt8 _) = TInt8"
| "scalar_Type (SInt16 _) = TInt16"
| "scalar_Type (SInt32 _) = TInt32"
| "scalar_Type (SInt64 _) = TInt64"
| "scalar_Type (SUint _) = TUint"
| "scalar_Type (SUint8 _) = TUint8"
| "scalar_Type (SUint16 _) = TUint16"
| "scalar_Type (SUint32 _) = TUint32"
| "scalar_Type (SUint64 _) = TUint64"
| "scalar_Type (SUintptr _) = TUintptr"
| "scalar_Type (SFloat32 _) = TFloat32"
| "scalar_Type (SFloat64 _) = TFloat64"
| "scalar_Type (SString _) = TString"

text \<open>\<^verbatim>\<open>reflect.ValueOf(x).Kind()\<close>.\<close>

fun Kind_of :: "gval \<Rightarrow> Kind" where
  "Kind_of VNil = Invalid"
| "Kind_of (VScalar s) = scalar_Kind s"
| "Kind_of (VTime _) = KStruct"
| "Kind_of (VStruct _ _) = KStruct"
| "Kind_of (VArray _ _) = KArray"
| "Kind_of (VSlice _ _ _) = KSlice"
| "Kind_of (VNilSlice _) = KSlice"
| "Kind_of (VPtr _ _) = KPtr"
| "Kind_of (VNilPtr _) = KPtr"
| "Kind_of (VMap _ _ _ _) = KMap"
| "Kind_of (VNilMap _ _) = KMap"
| "Kind_of (VFunc _ _) = KFunc"
| "Kind_of (VChan _ _ _) = KChan"
| "Kind_of (VIface _) = KInterface"

text \<open>\<^verbatim>\<open>reflect.TypeOf(x)\<close>, and \<^verbatim>\<open>v.Type()\<close> of a \<^verbatim>\<open>reflect.Value\<close>.\<close>

fun TypeOf :: "gval \<Rightarrow> gtype" where
  "TypeOf VNil = TNone"
| "TypeOf (VScalar s) = scalar_Type s"
| "TypeOf (VTime _) = TTime"
| "TypeOf (VStruct name fs) = TStruct name (map TypeOf fs)"
| "TypeOf (VArray ty xs) = TArray (length xs) ty"
| "TypeOf (VSlice ty _ _) = TSlice ty"
| "TypeOf (VNilSlice ty) = TSlice ty"
| "TypeOf (VPtr _ v) = TPtr (TypeOf v)"
| "TypeOf (VNilPtr ty) = TPtr ty"
| "TypeOf (VMap kt vt _ _) = TMap kt vt"
| "TypeOf (VNilMap kt vt) = TMap kt vt"
| "TypeOf (VFunc sig _) = TFunc sig"
| "TypeOf (VChan ty _ _) = TChan ty"
| "TypeOf (VIface _) = TInterface"

text \<open>\<^verbatim>\<open>v.IsValid()\<close>: false for the zero \<^verbatim>\<open>reflect.Value\<close> only.\<close>

definition IsValid :: "gval \<Rightarrow> bool" where
  "IsValid v \<longleftrightarrow> v \<noteq> VNil"

subsection \<open>Reading a value\<close>

text \<open>
  \<^verbatim>\<open>v.Int()\<close>, \<^verbatim>\<open>v.Uint()\<close>, \<^verbatim>\<open>v.Float()\<close> and \<^verbatim>\<open>v.String()\<close> widen the value to
  \<^verbatim>\<open>int64\<close> (sign extension), \<^verbatim>\<open>uint64\<close> (zero extension), \<^verbatim>\<open>float64\<close>, or return the
  string. In Go the first three panic on a value of another kind; the library calls each
  of them only after a test of the kind, and the last equations below are never reached.
\<close>

fun Value_Int :: "gval \<Rightarrow> 64 word" where
  "Value_Int (VScalar (SInt w)) = w"
| "Value_Int (VScalar (SInt8 w)) = scast w"
| "Value_Int (VScalar (SInt16 w)) = scast w"
| "Value_Int (VScalar (SInt32 w)) = scast w"
| "Value_Int (VScalar (SInt64 w)) = w"
| "Value_Int _ = 0"

fun Value_Uint :: "gval \<Rightarrow> 64 word" where
  "Value_Uint (VScalar (SUint w)) = w"
| "Value_Uint (VScalar (SUint8 w)) = ucast w"
| "Value_Uint (VScalar (SUint16 w)) = ucast w"
| "Value_Uint (VScalar (SUint32 w)) = ucast w"
| "Value_Uint (VScalar (SUint64 w)) = w"
| "Value_Uint (VScalar (SUintptr w)) = w"
| "Value_Uint _ = 0"

fun Value_Float :: "gval \<Rightarrow> 64 word" where
  "Value_Float (VScalar (SFloat32 w)) = f32_to_f64 w"
| "Value_Float (VScalar (SFloat64 w)) = w"
| "Value_Float _ = 0"

fun Value_String :: "gval \<Rightarrow> string" where
  "Value_String (VScalar (SString s)) = s"
| "Value_String _ = []"

text \<open>
  \<^verbatim>\<open>v.Len()\<close> of an array, channel, map, slice or string; for a channel, the number of
  elements queued in its buffer.
\<close>

fun Len :: "gval \<Rightarrow> nat" where
  "Len (VArray _ xs) = length xs"
| "Len (VChan _ _ n) = n"
| "Len (VMap _ _ _ m) = length m"
| "Len (VNilMap _ _) = 0"
| "Len (VSlice _ _ xs) = length xs"
| "Len (VNilSlice _) = 0"
| "Len (VScalar (SString s)) = length s"
| "Len _ = 0"

text \<open>
  \<^verbatim>\<open>v.Elem()\<close>: what a pointer points to or an interface holds; the zero
  \<^verbatim>\<open>reflect.Value\<close> for a nil pointer and for a nil interface.
\<close>

fun Elem :: "gval \<Rightarrow> gval" where
  "Elem (VPtr _ v) = v"
| "Elem (VIface v) = v"
| "Elem _ = VNil"

text \<open>
  \<^verbatim>\<open>v.Interface()\<close> returns the value as an \<^verbatim>\<open>interface{}\<close>; for a \<^verbatim>\<open>reflect.Value\<close> of
  kind Interface that is what the interface holds. On the zero \<^verbatim>\<open>reflect.Value\<close> it
  panics, which its callers below test for.
\<close>

fun Interface :: "gval \<Rightarrow> gval" where
  "Interface (VIface v) = v"
| "Interface v = v"

text \<open>\<^verbatim>\<open>reflect.Zero(typ)\<close>: the zero value of a type.\<close>

fun Zero :: "gtype \<Rightarrow> gval" where
  "Zero TNone = VNil"
| "Zero TBool = VScalar (SBool False)"
| "Zero TInt = VScalar (SInt 0)"
| "Zero TInt8 = VScalar (SInt8 0)"
| "Zero TInt16 = VScalar (SInt16 0)"
| "Zero TInt32 = VScalar (SInt32 0)"
| "Zero TInt64 = VScalar (SInt64 0)"
| "Zero TUint = VScalar (SUint 0)"
| "Zero TUint8 = VScalar (SUint8 0)"
| "Zero TUint16 = VScalar (SUint16 0)"
| "Zero TUint32 = VScalar (SUint32 0)"
| "Zero TUint64 = VScalar (SUint64 0)"
| "Zero TUintptr = VScalar (SUintptr 0)"
| "Zero TFloat32 = VScalar (SFloat32 0)"
| "Zero TFloat64 = VScalar (SFloat64 0)"
| "Zero TString = VScalar (SString [])"
| "Zero TTime = VTime \<lparr>sec = 0, nsec = 0, loc = None\<rparr>"
| "Zero (TStruct name ts) = VStruct name (map Zero ts)"
| "Zero (TArray n t) = VArray t (replicate n (Zero t))"
| "Zero (TSlice t) = VNilSlice t"
| "Zero (TPtr t) = VNilPtr t"
| "Zero (TMap kt vt) = VNilMap kt vt"
| "Zero (TFunc sig) = VFunc sig None"
| "Zero (TChan t) = VChan t None 0"
| "Zero TInterface = VIface VNil"

subsection \<open>reflect.DeepEqual\<close>

text \<open>
  Go's \<^verbatim>\<open>==\<close> on two scalars of the same type (the "normal equality" of
  \<^verbatim>\<open>reflect.DeepEqual\<close>).
\<close>

definition scalar_equal :: "scalar \<Rightarrow> scalar \<Rightarrow> bool" where
  "scalar_equal a b =
     (case (a, b) of
        (SFloat32 u, SFloat32 v) \<Rightarrow> f32_eq u v
      | (SFloat64 u, SFloat64 v) \<Rightarrow> f64_eq u v
      | _ \<Rightarrow> a = b)"

text \<open>
  Go's \<^verbatim>\<open>==\<close> on two values of one comparable type, which is how a map finds a key:
  pointers and channels by address, arrays and structs element by element, interfaces by
  dynamic type and value. Slices, maps and functions are not comparable and cannot be keys.
\<close>

fun go_equal :: "gval \<Rightarrow> gval \<Rightarrow> bool" where
  "go_equal v1 v2 =
     (case v1 of
        VNil \<Rightarrow> v2 = VNil
      | VScalar a \<Rightarrow> (case v2 of VScalar b \<Rightarrow> scalar_equal a b | _ \<Rightarrow> False)
      | VTime t \<Rightarrow> (case v2 of VTime u \<Rightarrow> t = u | _ \<Rightarrow> False)
      | VStruct _ xs \<Rightarrow> (case v2 of VStruct _ ys \<Rightarrow> list_all2 go_equal xs ys | _ \<Rightarrow> False)
      | VArray _ xs \<Rightarrow> (case v2 of VArray _ ys \<Rightarrow> list_all2 go_equal xs ys | _ \<Rightarrow> False)
      | VPtr a _ \<Rightarrow> (case v2 of VPtr b _ \<Rightarrow> a = b | _ \<Rightarrow> False)
      | VNilPtr _ \<Rightarrow> (case v2 of VNilPtr _ \<Rightarrow> True | _ \<Rightarrow> False)
      | VChan _ a _ \<Rightarrow> (case v2 of VChan _ b _ \<Rightarrow> a = b | _ \<Rightarrow> False)
      | VIface x \<Rightarrow>
          (case v2 of VIface y \<Rightarrow> TypeOf x = TypeOf y \<and> go_equal x y | _ \<Rightarrow> False)
      | _ \<Rightarrow> False)"

text \<open>\<^verbatim>\<open>v.MapIndex(k)\<close> on the entries of a map: the value stored under a key equal to \<open>k\<close>.\<close>

fun MapIndex :: "(gval \<times> gval) list \<Rightarrow> gval \<Rightarrow> gval option" where
  "MapIndex [] k = None"
| "MapIndex ((k', v) # m) k =
     (if TypeOf k' = TypeOf k \<and> go_equal k' k then Some v else MapIndex m k)"

text \<open>
  \<^verbatim>\<open>deepValueEqual\<close> of package reflect, case by case on the kind: arrays and structs
  element by element; slices and maps by nil-ness, length, then either the same address
  or the contents; pointers by address or by what they point to; interfaces by nil-ness,
  then by what they hold; functions only when both are nil; everything else by \<^verbatim>\<open>==\<close>.
\<close>

fun deepValueEqual :: "gval \<Rightarrow> gval \<Rightarrow> bool" where
  "deepValueEqual v1 v2 =
     (if \<not> IsValid v1 \<or> \<not> IsValid v2 then IsValid v1 = IsValid v2
      else if TypeOf v1 \<noteq> TypeOf v2 then False
      else (case v1 of
          VArray _ xs \<Rightarrow>
            (case v2 of VArray _ ys \<Rightarrow> list_all2 deepValueEqual xs ys | _ \<Rightarrow> False)
        | VSlice _ a xs \<Rightarrow>
            (case v2 of
               VSlice _ b ys \<Rightarrow>
                 length xs = length ys \<and> (a = b \<or> list_all2 deepValueEqual xs ys)
             | _ \<Rightarrow> False)
        | VNilSlice _ \<Rightarrow> (case v2 of VNilSlice _ \<Rightarrow> True | _ \<Rightarrow> False)
        | VIface x \<Rightarrow>
            (case v2 of
               VIface y \<Rightarrow>
                 if x = VNil \<or> y = VNil then (x = VNil) = (y = VNil) else deepValueEqual x y
             | _ \<Rightarrow> False)
        | VPtr a x \<Rightarrow> (case v2 of VPtr b y \<Rightarrow> a = b \<or> deepValueEqual x y | _ \<Rightarrow> False)
        | VNilPtr _ \<Rightarrow> (case v2 of VNilPtr _ \<Rightarrow> True | _ \<Rightarrow> False)
        | VStruct _ xs \<Rightarrow>
            (case v2 of VStruct _ ys \<Rightarrow> list_all2 deepValueEqual xs ys | _ \<Rightarrow> False)
        | VMap _ _ a m1 \<Rightarrow>
            (case v2 of
               VMap _ _ b m2 \<Rightarrow>
                 length m1 = length m2 \<and>
                 (a = b \<or>
                  list_all (\<lambda>(k, val1).
                     case MapIndex m2 k of
                       None \<Rightarrow> False
                     | Some val2 \<Rightarrow> deepValueEqual val1 val2) m1)
             | _ \<Rightarrow> False)
        | VNilMap _ _ \<Rightarrow> (case v2 of VNilMap _ _ \<Rightarrow> True | _ \<Rightarrow> False)
        | VFunc _ f \<Rightarrow> (case v2 of VFunc _ g \<Rightarrow> f = None \<and> g = None | _ \<Rightarrow> False)
        | VScalar a \<Rightarrow> (case v2 of VScalar b \<Rightarrow> scalar_equal a b | _ \<Rightarrow> False)
        | VTime t \<Rightarrow> (case v2 of VTime u \<Rightarrow> t = u | _ \<Rightarrow> False)
        | VChan _ a _ \<Rightarrow> (case v2 of VChan _ b _ \<Rightarrow> a = b | _ \<Rightarrow> False)
        | VNil \<Rightarrow> False))"

declare go_equal.simps [simp del] deepValueEqual.simps [simp del]

definition DeepEqual :: "gval \<Rightarrow> gval \<Rightarrow> bool" where
  "DeepEqual x y =
     (if x = VNil \<or> y = VNil then x = y
      else if TypeOf x \<noteq> TypeOf y then False
      else deepValueEqual x y)"

section \<open>Errors\<close>

text \<open>
  An error is built by \<^verbatim>\<open>errors.New\<close> from a message or by \<^verbatim>\<open>fmt.Errorf\<close> from a
  format string and its arguments, which are kept as they are passed. \<open>errEmpty\<close> is the
  package variable \<^verbatim>\<open>errEmpty = errors.New("empty argument")\<close>, one error value of its
  own. \<open>None\<close> of type \<open>error option\<close> is the nil error.
\<close>

datatype fmtarg =
    AString string
  | AValue gval
  | AValues "gval list"
  | AKind Kind
  | AType gtype
  | AOp int

datatype error =
    errEmpty
  | errors_New string
  | fmt_Errorf string "fmtarg list"

section \<open>Conversions (reflect.go)\<close>

definition toInt64 :: "gval \<Rightarrow> error + 64 word" where
  "toInt64 x =
     (if x = VNil then Inl (errors_New ''cannot convert nil to type int64'')
      else let kind = Kind_of x
           in if kind \<in> {KInt, KInt8, KInt16, KInt32, KInt64} then Inr (Value_Int x)
              else Inl (fmt_Errorf ''cannot convert `%v` to type int64'' [AKind kind]))"

definition toUint64 :: "gval \<Rightarrow> error + 64 word" where
  "toUint64 x =
     (if x = VNil then Inl (errors_New ''cannot convert nil to type uint64'')
      else let kind = Kind_of x
           in if kind \<in> {KUint, KUint8, KUint16, KUint32, KUint64} then Inr (Value_Uint x)
              else Inl (fmt_Errorf ''cannot convert `%v` to type uint64'' [AKind kind]))"

definition toFloat64 :: "gval \<Rightarrow> error + 64 word" where
  "toFloat64 x =
     (if x = VNil then Inl (errors_New ''cannot convert nil to type float64'')
      else let kind = Kind_of x
           in if kind \<in> {KFloat32, KFloat64} then Inr (Value_Float x)
              else Inl (fmt_Errorf ''cannot convert `%v` to type float64'' [AKind kind]))"

definition toString :: "gval \<Rightarrow> error + string" where
  "toString x =
     (if x = VNil then Inl (errors_New ''cannot convert nil to type string'')
      else let kind = Kind_of x
           in if kind = KString then Inr (Value_String x)
              else Inl (fmt_Errorf ''cannot convert `%v` to type string'' [AKind kind]))"

text \<open>The type assertion \<^verbatim>\<open>x.(time.Time)\<close> holds for a value of that very type only.\<close>

definition toTime :: "gval \<Rightarrow> error + Time" where
  "toTime x =
     (if x = VNil then Inl (errors_New ''cannot convert nil to type time.Time'')
      else (case x of
              VTime v \<Rightarrow> Inr v
            | _ \<Rightarrow> Inl (fmt_Errorf ''cannot convert `%v` to time.Time'' [AType (TypeOf x)])))"

text \<open>The helper \<^verbatim>\<open>equal\<close> of reflect.go.\<close>

definition equal' :: "gval \<Rightarrow> gval \<Rightarrow> bool" where
  "equal' x y = DeepEqual x y"

text \<open>
  Modelled from the spec: \<^verbatim>\<open>equals\<close>, which \<^verbatim>\<open>compareInterface\<close> calls, is not among the
  sources at hand, where the helper of reflect.go is named \<^verbatim>\<open>equal\<close>. The spec describes
  \<^verbatim>\<open>equals(a, b)\<close> as deep, structural equality, consistent with the language's canonical
  notion of deep equality; that is \<^verbatim>\<open>reflect.DeepEqual\<close>, as in \<^verbatim>\<open>equal\<close>.
\<close>

definition equals :: "gval \<Rightarrow> gval \<Rightarrow> bool" where
  "equals x y = equal' x y"

section \<open>The comparison engine\<close>

text \<open>\<^verbatim>\<open>type cmpOp int\<close> with the constants \<^verbatim>\<open>eq = iota + 1\<close>, \<^verbatim>\<open>ne\<close>, ..., \<^verbatim>\<open>gte\<close>.\<close>

type_synonym cmpOp = int

definition eq_op :: cmpOp where "eq_op = 1"
definition ne_op :: cmpOp where "ne_op = 2"
definition lt_op :: cmpOp where "lt_op = 3"
definition lte_op :: cmpOp where "lte_op = 4"
definition gt_op :: cmpOp where "gt_op = 5"
definition gte_op :: cmpOp where "gte_op = 6"

text \<open>The two tables; a Go map returns the empty string for a key it does not have.\<close>

definition cmpOps :: "cmpOp \<Rightarrow> string" where
  "cmpOps op =
     (if op = eq_op then ''eq''
      else if op = ne_op then ''ne''
      else if op = lt_op then ''lt''
      else if op = lte_op then ''lte''
      else if op = gt_op then ''gt''
      else if op = gte_op then ''gte''
      else [])"

definition cmpErrs :: "cmpOp \<Rightarrow> string" where
  "cmpErrs op =
     (if op = eq_op then ''`%s` comparison failed: `%v` is not equal to `%v`''
      else if op = ne_op then ''`%s` comparison failed: `%v` is equal to `%v`''
      else if op = lt_op then ''`%s` comparison failed: `%v` is not less than `%v`''
      else if op = lte_op then ''`%s` comparison failed: `%v` is not less than or equal to `%v`''
      else if op = gt_op then ''`%s` comparison failed: `%v` is not greater than `%v`''
      else if op = gte_op then
        ''`%s` comparison failed: `%v` is not greater than or equal to `%v`''
      else [])"

record cmpField =
  cmp_op :: cmpOp
  cmp_term :: gval

definition newCmpField :: "cmpOp \<Rightarrow> gval \<Rightarrow> error + cmpField" where
  "newCmpField op trm =
     (if op < eq_op \<or> op > gte_op
      then Inl (fmt_Errorf ''invalid comparison operator `%d`'' [AOp op])
      else Inr \<lparr>cmp_op = op, cmp_term = trm\<rparr>)"

text \<open>
  The five typed comparisons. Each converts the term, computes \<open>ok\<close> by the operator
  (a \<^verbatim>\<open>switch\<close> without default: \<open>ok\<close> stays false for any other operator) and reports
  the two converted operands when \<open>ok\<close> is false. \<^verbatim>\<open>int64\<close> is compared as a signed
  number, \<^verbatim>\<open>uint64\<close> as an unsigned one, strings byte by byte.
\<close>

definition compareInt64 :: "64 word \<Rightarrow> cmpField \<Rightarrow> error option" where
  "compareInt64 x cmp =
     (case toInt64 (cmp_term cmp) of
        Inl err \<Rightarrow> Some err
      | Inr trm \<Rightarrow>
          let op = cmp_op cmp;
              ok = (if op = eq_op then x = trm
                    else if op = ne_op then x \<noteq> trm
                    else if op = lt_op then sint x < sint trm
                    else if op = lte_op then sint x \<le> sint trm
                    else if op = gt_op then sint x > sint trm
                    else if op = gte_op then sint x \<ge> sint trm
                    else False)
          in if \<not> ok
             then Some (fmt_Errorf (cmpErrs op)
                    [AString (cmpOps op), AValue (VScalar (SInt64 x)), AValue (VScalar (SInt64 trm))])
             else None)"

definition compareUint64 :: "64 word \<Rightarrow> cmpField \<Rightarrow> error option" where
  "compareUint64 x cmp =
     (case toUint64 (cmp_term cmp) of
        Inl err \<Rightarrow> Some err
      | Inr trm \<Rightarrow>
          let op = cmp_op cmp;
              ok = (if op = eq_op then x = trm
                    else if op = ne_op then x \<noteq> trm
                    else if op = lt_op then x < trm
                    else if op = lte_op then x \<le> trm
                    else if op = gt_op then x > trm
                    else if op = gte_op then x \<ge> trm
                    else False)
          in if \<not> ok
             then Some (fmt_Errorf (cmpErrs op)
                    [AString (cmpOps op), AValue (VScalar (SUint64 x)),
                     AValue (VScalar (SUint64 trm))])
             else None)"

definition compareFloat64 :: "64 word \<Rightarrow> cmpField \<Rightarrow> error option" where
  "compareFloat64 x cmp =
     (case toFloat64 (cmp_term cmp) of
        Inl err \<Rightarrow> Some err
      | Inr trm \<Rightarrow>
          let op = cmp_op cmp;
              ok = (if op = eq_op then f64_eq x trm
                    else if op = ne_op then \<not> f64_eq x trm
                    else if op = lt_op then f64_lt x trm
                    else if op = lte_op then f64_le x trm
                    else if op = gt_op then f64_lt trm x
                    else if op = gte_op then f64_le trm x
                    else False)
          in if \<not> ok
             then Some (fmt_Errorf (cmpErrs op)
                    [AString (cmpOps op), AValue (VScalar (SFloat64 x)),
                     AValue (VScalar (SFloat64 trm))])
             else None)"

definition compareString :: "string \<Rightarrow> cmpField \<Rightarrow> error option" where
  "compareString x cmp =
     (case toString (cmp_term cmp) of
        Inl err \<Rightarrow> Some err
      | Inr trm \<Rightarrow>
          let op = cmp_op cmp;
              ok = (if op = eq_op then x = trm
                    else if op = ne_op then x \<noteq> trm
                    else if op = lt_op then x < trm
                    else if op = lte_op then x \<le> trm
                    else if op = gt_op then x > trm
                    else if op = gte_op then x \<ge> trm
                    else False)
          in if \<not> ok
             then Some (fmt_Errorf (cmpErrs op)
                    [AString (cmpOps op), AValue (VScalar (SString x)),
                     AValue (VScalar (SString trm))])
             else None)"

definition compareTime :: "Time \<Rightarrow> cmpField \<Rightarrow> error option" where
  "compareTime x cmp =
     (case toTime (cmp_term cmp) of
        Inl err \<Rightarrow> Some err
      | Inr trm \<Rightarrow>
          let op = cmp_op cmp;
              ok = (if op = eq_op then Time_Equal x trm
                    else if op = ne_op then \<not> Time_Equal x trm
                    else if op = lt_op then Time_Before x trm
                    else if op = lte_op then Time_Before x trm \<or> Time_Equal x trm
                    else if op = gt_op then Time_After x trm
                    else if op = gte_op then Time_After x trm \<or> Time_Equal x trm
                    else False)
          in if \<not> ok
             then Some (fmt_Errorf (cmpErrs op)
                    [AString (cmpOps op), AValue (VTime x), AValue (VTime trm)])
             else None)"

text \<open>The comparison of everything else: equal and not equal only.\<close>

definition compareInterface :: "gval \<Rightarrow> cmpField \<Rightarrow> error option" where
  "compareInterface x cmp =
     (let op = cmp_op cmp; trm = cmp_term cmp
      in if op = eq_op \<or> op = ne_op then
           (let ok = (if op = eq_op then equals x trm else \<not> equals x trm)
            in if \<not> ok
               then Some (fmt_Errorf (cmpErrs op) [AString (cmpOps op), AValue x, AValue trm])
               else None)
         else Some (fmt_Errorf ''invalid operation `%s` for values `%v` and `%v`''
                      [AString (cmpOps op), AValue x, AValue trm]))"

text \<open>
  \<^verbatim>\<open>compare\<close> takes a pointer to the comparison field, which may be nil (\<open>None\<close>). The
  kind of the left operand \<open>x\<close> alone selects the typed comparison; a struct that is not
  a \<^verbatim>\<open>time.Time\<close> leaves the \<^verbatim>\<open>switch\<close> and is compared as an opaque value.
\<close>

definition compare :: "gval \<Rightarrow> cmpField option \<Rightarrow> error option" where
  "compare x cmp' =
     (case cmp' of
        None \<Rightarrow> Some (errors_New ''comparison field cannot be nil'')
      | Some cmp \<Rightarrow>
          let op = cmp_op cmp
          in if op < eq_op \<or> op > gte_op
             then Some (fmt_Errorf ''invalid comparison operator `%d`'' [AOp op])
             else
               let kind = Kind_of x
               in if kind \<in> {KInt, KInt8, KInt16, KInt32, KInt64}
                    then compareInt64 (Value_Int x) cmp
                  else if kind \<in> {KUint, KUint8, KUint16, KUint32, KUint64}
                    then compareUint64 (Value_Uint x) cmp
                  else if kind \<in> {KFloat32, KFloat64}
                    then compareFloat64 (Value_Float x) cmp
                  else if kind = KString
                    then compareString (Value_String x) cmp
                  else if kind = KStruct
                    then (case toTime x of
                            Inr t \<Rightarrow> compareTime t cmp
                          | Inl _ \<Rightarrow> compareInterface x cmp)
                  else compareInterface x cmp)"

section \<open>Emptiness (reflect.go)\<close>

text \<open>
  A function that can panic returns an \<open>outcome\<close>: the value it returns, or the panic.
\<close>

datatype 'a outcome = Return 'a | Panic string

lemma size_Interface_le: "size (Interface v) \<le> size v"
  by (cases v) simp_all

text \<open>
  \<^verbatim>\<open>isEmpty\<close> unwraps pointers with \<^verbatim>\<open>v.Elem().Interface()\<close>. For a nil pointer
  \<^verbatim>\<open>v.Elem()\<close> is the zero \<^verbatim>\<open>reflect.Value\<close>, on which \<^verbatim>\<open>Interface()\<close> panics.
\<close>

function isEmpty :: "gval \<Rightarrow> bool outcome" where
  "isEmpty x =
     (if x = VNil then Return True
      else
        let kind = Kind_of x
        in if kind \<in> {KArray, KChan, KMap, KSlice, KString} then Return (Len x = 0)
           else if kind \<in> {KInterface, KPtr} then
             (let e = Elem x
              in if \<not> IsValid e
                 then Panic ''reflect: call of reflect.Value.Interface on zero Value''
                 else isEmpty (Interface e))
           else Return (DeepEqual x (Interface (Zero (TypeOf x)))))"
  by pat_completeness auto
termination
proof (relation "measure size")
  show "wf (measure size)" by simp
next
  fix x :: gval and kind e
  assume k: "kind = Kind_of x" "kind \<in> {KInterface, KPtr}" and e: "e = Elem x"
    and v: "\<not> \<not> IsValid e"
  have "size (Interface (Elem x)) < size x"
  proof (cases x)
    case (VPtr a v)
    then show ?thesis using size_Interface_le [of v] by simp
  next
    case (VIface v)
    then show ?thesis using size_Interface_le [of v] by simp
  next
    case (VScalar sc)
    then show ?thesis using k by (cases sc) simp_all
  qed (use k e v in \<open>simp_all add: IsValid_def\<close>)
  then show "(Interface e, x) \<in> measure size" using e by simp
qed

declare isEmpty.simps [simp del]

section \<open>Validation functions (the checks of the package)\<close>

text \<open>
  Each constructor of the package returns a \<^verbatim>\<open>ValidateFunc\<close>, a closure without
  arguments over the constructor's arguments. The functions below are those closures
  evaluated: from the constructor's arguments to the error returned (\<open>None\<close> for nil).
\<close>

fun Required :: "gval list \<Rightarrow> error option outcome" where
  "Required [] = Return None"
| "Required (arg # args) =
     (case isEmpty arg of
        Panic msg \<Rightarrow> Panic msg
      | Return e \<Rightarrow> if e then Return (Some errEmpty) else Required args)"

definition Eq :: "gval \<Rightarrow> gval \<Rightarrow> error option" where
  "Eq x trm =
     (case newCmpField eq_op trm of
        Inl err \<Rightarrow> Some err
      | Inr cmpField \<Rightarrow> compare x (Some cmpField))"

definition Ne :: "gval \<Rightarrow> gval \<Rightarrow> error option" where
  "Ne x trm =
     (case newCmpField ne_op trm of
        Inl err \<Rightarrow> Some err
      | Inr cmpField \<Rightarrow> compare x (Some cmpField))"

definition Lt :: "gval \<Rightarrow> gval \<Rightarrow> error option" where
  "Lt x trm =
     (case newCmpField lt_op trm of
        Inl err \<Rightarrow> Some err
      | Inr cmpField \<Rightarrow> compare x (Some cmpField))"

definition Lte :: "gval \<Rightarrow> gval \<Rightarrow> error option" where
  "Lte x trm =
     (case newCmpField lte_op trm of
        Inl err \<Rightarrow> Some err
      | Inr cmpField \<Rightarrow> compare x (Some cmpField))"

definition Gt :: "gval \<Rightarrow> gval \<Rightarrow> error option" where
  "Gt x trm =
     (case newCmpField gt_op trm of
        Inl err \<Rightarrow> Some err
      | Inr cmpField \<Rightarrow> compare x (Some cmpField))"

definition Gte :: "gval \<Rightarrow> gval \<Rightarrow> error option" where
  "Gte x trm =
     (case newCmpField gte_op trm of
        Inl err \<Rightarrow> Some err
      | Inr cmpField \<Rightarrow> compare x (Some cmpField))"

definition Between :: "gval \<Rightarrow> gval \<Rightarrow> gval \<Rightarrow> error option" where
  "Between x lower upper =
     (case newCmpField gte_op lower of
        Inl err \<Rightarrow> Some err
      | Inr cmpField \<Rightarrow>
          (case compare x (Some cmpField) of
             Some err \<Rightarrow> Some err
           | None \<Rightarrow>
               (case newCmpField lte_op upper of
                  Inl err \<Rightarrow> Some err
                | Inr cmpField' \<Rightarrow> compare x (Some cmpField'))))"

text \<open>
  The loops of \<^verbatim>\<open>In\<close> and \<^verbatim>\<open>NotIn\<close> over \<^verbatim>\<open>elems\<close>; the second argument is the
  whole of \<^verbatim>\<open>elems\<close>, which the final error reports, the third what is left of it.
\<close>

fun In_loop :: "gval \<Rightarrow> gval list \<Rightarrow> gval list \<Rightarrow> error option" where
  "In_loop x elems [] =
     Some (fmt_Errorf ''`in` comparison failed: `%v` not in `%v`'' [AValue x, AValues elems])"
| "In_loop x elems (elem # rest) =
     (case newCmpField eq_op elem of
        Inl err \<Rightarrow> Some err
      | Inr cmpField \<Rightarrow>
          (case compare x (Some cmpField) of
             None \<Rightarrow> None
           | Some err \<Rightarrow> In_loop x elems rest))"

definition In :: "gval \<Rightarrow> gval list \<Rightarrow> error option" where
  "In x elems = In_loop x elems elems"

fun NotIn_loop :: "gval \<Rightarrow> gval list \<Rightarrow> gval list \<Rightarrow> error option" where
  "NotIn_loop x elems [] = None"
| "NotIn_loop x elems (elem # rest) =
     (case newCmpField eq_op elem of
        Inl err \<Rightarrow> Some err
      | Inr cmpField \<Rightarrow>
          (case compare x (Some cmpField) of
             None \<Rightarrow>
               Some (fmt_Errorf ''`not in` comparison failed: `%v` in `%v`''
                       [AValue x, AValues elems])
           | Some err \<Rightarrow> NotIn_loop x elems rest))"

definition NotIn :: "gval \<Rightarrow> gval list \<Rightarrow> error option" where
  "NotIn x elems = NotIn_loop x elems elems"

section \<open>Strings: runes and white space\<close>

text \<open>
  A Go string is a sequence of bytes that the functions of package \<^verbatim>\<open>strings\<close> read as
  UTF-8. A rune is a code point, a natural number here. A byte that starts no valid
  encoding is read as the rune \<open>RuneError\<close> of width 1, as \<^verbatim>\<open>utf8.DecodeRuneInString\<close>
  and the \<^verbatim>\<open>range\<close> loop over a string do.
\<close>

definition RuneError :: nat where
  "RuneError = 0xFFFD"

definition is_cont :: "nat \<Rightarrow> bool" where
  "is_cont b \<longleftrightarrow> 0x80 \<le> b \<and> b \<le> 0xBF"

text \<open>The range accepted for the second byte, by the first byte (\<^verbatim>\<open>acceptRanges\<close>).\<close>

definition accept_lo :: "nat \<Rightarrow> nat" where
  "accept_lo b0 = (if b0 = 0xE0 then 0xA0 else if b0 = 0xF0 then 0x90 else 0x80)"

definition accept_hi :: "nat \<Rightarrow> nat" where
  "accept_hi b0 = (if b0 = 0xED then 0x9F else if b0 = 0xF4 then 0x8F else 0xBF)"

definition DecodeRuneInString :: "string \<Rightarrow> nat \<times> nat" where
  "DecodeRuneInString s =
     (case map of_char s of
        [] \<Rightarrow> (RuneError, 0)
      | b0 # bs \<Rightarrow>
          if b0 < 0x80 then (b0, 1)
          else if 0xC2 \<le> b0 \<and> b0 \<le> 0xDF then
            (case bs of
               b1 # _ \<Rightarrow>
                 if accept_lo b0 \<le> b1 \<and> b1 \<le> accept_hi b0
                 then ((b0 mod 32) * 64 + b1 mod 64, 2)
                 else (RuneError, 1)
             | _ \<Rightarrow> (RuneError, 1))
          else if 0xE0 \<le> b0 \<and> b0 \<le> 0xEF then
            (case bs of
               b1 # b2 # _ \<Rightarrow>
                 if accept_lo b0 \<le> b1 \<and> b1 \<le> accept_hi b0 \<and> is_cont b2
                 then ((b0 mod 16) * 4096 + (b1 mod 64) * 64 + b2 mod 64, 3)
                 else (RuneError, 1)
             | _ \<Rightarrow> (RuneError, 1))
          else if 0xF0 \<le> b0 \<and> b0 \<le> 0xF4 then
            (case bs of
               b1 # b2 # b3 # _ \<Rightarrow>
                 if accept_lo b0 \<le> b1 \<and> b1 \<le> accept_hi b0 \<and> is_cont b2 \<and> is_cont b3
                 then ((b0 mod 8) * 262144 + (b1 mod 64) * 4096 + (b2 mod 64) * 64 + b3 mod 64, 4)
                 else (RuneError, 1)
             | _ \<Rightarrow> (RuneError, 1))
          else (RuneError, 1))"

lemma DecodeRuneInString_width:
  "s \<noteq> [] \<Longrightarrow> 1 \<le> snd (DecodeRuneInString s)"
  by (cases s) (auto simp: DecodeRuneInString_def split: list.splits)

text \<open>
  \<^verbatim>\<open>utf8.DecodeLastRuneInString\<close>: the last rune of \<open>s\<close> and its width. It looks back over
  at most four bytes for one that can start a rune, and decodes from there; unless that
  rune ends where \<open>s\<close> ends, the last byte alone is read as \<open>RuneError\<close>.
\<close>

definition RuneStart :: "nat \<Rightarrow> bool" where
  "RuneStart b \<longleftrightarrow> \<not> is_cont b"

function scan_start :: "string \<Rightarrow> int \<Rightarrow> int \<Rightarrow> int" where
  "scan_start s start lim =
     (if start \<ge> lim
      then (if RuneStart (of_char (s ! nat start)) then start else scan_start s (start - 1) lim)
      else start)"
  by pat_completeness auto
termination
  by (relation "measure (\<lambda>(s, start, lim). nat (start - lim + 1))") auto

declare scan_start.simps [simp del]

definition DecodeLastRuneInString :: "string \<Rightarrow> nat \<times> nat" where
  "DecodeLastRuneInString s =
     (let n = length s
      in if n = 0 then (RuneError, 0)
         else
           let r = of_char (s ! (n - 1))
           in if r < 0x80 then (r, 1)
              else
                let lim = (if int n - 4 < 0 then 0 else int n - 4);
                    start = scan_start s (int n - 2) lim;
                    start = (if start < 0 then 0 else start);
                    (r, size) = DecodeRuneInString (drop (nat start) s)
                in if nat start + size \<noteq> n then (RuneError, 1) else (r, size))"

text \<open>
  \<^verbatim>\<open>utf8.AppendRune\<close>: the UTF-8 encoding of a rune; surrogates and runes beyond
  \<open>0x10FFFF\<close> are encoded as \<open>RuneError\<close>.
\<close>

definition EncodeRune :: "nat \<Rightarrow> string" where
  "EncodeRune r =
     (if r \<le> 0x7F then [char_of r]
      else if r \<le> 0x7FF then [char_of (0xC0 + r div 64), char_of (0x80 + r mod 64)]
      else if r > 0x10FFFF \<or> (0xD800 \<le> r \<and> r \<le> 0xDFFF) then [CHR 0xEF, CHR 0xBF, CHR 0xBD]
      else if r \<le> 0xFFFF then
        [char_of (0xE0 + r div 4096), char_of (0x80 + (r div 64) mod 64), char_of (0x80 + r mod 64)]
      else
        [char_of (0xF0 + r div 262144), char_of (0x80 + (r div 4096) mod 64),
         char_of (0x80 + (r div 64) mod 64), char_of (0x80 + r mod 64)])"

text \<open>\<^verbatim>\<open>unicode.IsSpace\<close>: the code points with Unicode's White Space property.\<close>

definition IsSpace :: "nat \<Rightarrow> bool" where
  "IsSpace r \<longleftrightarrow>
     (if r \<le> 0xFF then r \<in> {0x09, 0x0A, 0x0B, 0x0C, 0x0D, 0x20, 0x85, 0xA0}
      else r = 0x1680 \<or> (0x2000 \<le> r \<and> r \<le> 0x200A) \<or> r = 0x2028 \<or> r = 0x2029
           \<or> r = 0x202F \<or> r = 0x205F \<or> r = 0x3000)"

text \<open>
  \<^verbatim>\<open>indexFunc\<close> and \<^verbatim>\<open>lastIndexFunc\<close> of package strings: the index of the first (last)
  rune \<open>r\<close> with \<open>f r = truth\<close>, or \<open>-1\<close>. The first argument of the loop is the index
  reached, the second the rest of the string.
\<close>

function indexFunc_loop :: "nat \<Rightarrow> string \<Rightarrow> (nat \<Rightarrow> bool) \<Rightarrow> bool \<Rightarrow> int" where
  "indexFunc_loop i s f truth =
     (if s = [] then - 1
      else let (r, size) = DecodeRuneInString s
           in if f r = truth then int i else indexFunc_loop (i + size) (drop size s) f truth)"
  by pat_completeness auto
termination
proof (relation "measure (\<lambda>(i, s, f, truth). length s)")
  show "wf (measure (\<lambda>(i, s, f, truth). length s))" by simp
next
  fix i :: nat and s :: string and f :: "nat \<Rightarrow> bool" and truth :: bool and x r size
  assume "s \<noteq> []" and x: "x = DecodeRuneInString s" "(r, size) = x"
  then have "1 \<le> size" using DecodeRuneInString_width [of s] by (metis snd_conv)
  with \<open>s \<noteq> []\<close> show "((i + size, drop size s, f, truth), (i, s, f, truth))
      \<in> measure (\<lambda>(i, s, f, truth). length s)"
    by simp
qed

declare indexFunc_loop.simps [simp del]

definition indexFunc :: "string \<Rightarrow> (nat \<Rightarrow> bool) \<Rightarrow> bool \<Rightarrow> int" where
  "indexFunc s f truth = indexFunc_loop 0 s f truth"

lemma scan_start_le: "scan_start s start lim \<le> start"
proof (induction s start lim rule: scan_start.induct)
  case (1 s start lim)
  show ?case
    using "1.IH" by (subst scan_start.simps) auto
qed

lemma DecodeRuneInString_drop_width:
  assumes "DecodeRuneInString (drop k s) = (r, w)" and "k < length s"
  shows "1 \<le> w"
  using DecodeRuneInString_width [of "drop k s"] assms by simp

lemma DecodeLastRuneInString_width:
  assumes "s \<noteq> []"
  shows "1 \<le> snd (DecodeLastRuneInString s)"
proof -
  define lim where "lim = (if int (length s) - 4 < 0 then 0 else int (length s) - 4)"
  define st0 where "st0 = scan_start s (int (length s) - 2) lim"
  define st where "st = (if st0 < 0 then 0 else st0)"
  obtain r w where d: "DecodeRuneInString (drop (nat st) s) = (r, w)"
    by (cases "DecodeRuneInString (drop (nat st) s)") auto
  have "nat st < length s"
    using scan_start_le [of s "int (length s) - 2" lim] assms
    by (cases s) (auto simp: st_def st0_def)
  then have w: "1 \<le> w"
    using DecodeRuneInString_drop_width [OF d] by simp
  have "DecodeLastRuneInString s =
          (if (of_char (s ! (length s - 1)) :: nat) < 0x80 then (of_char (s ! (length s - 1)), 1)
           else if nat st + w \<noteq> length s then (RuneError, 1) else (r, w))"
    using assms d
    unfolding DecodeLastRuneInString_def Let_def st_def st0_def lim_def
    by simp
  then show ?thesis using w by simp
qed

function lastIndexFunc :: "string \<Rightarrow> (nat \<Rightarrow> bool) \<Rightarrow> bool \<Rightarrow> int" where
  "lastIndexFunc s f truth =
     (if s = [] then - 1
      else let (r, size) = DecodeLastRuneInString s;
               i = length s - size
           in if f r = truth then int i else lastIndexFunc (take i s) f truth)"
  by pat_completeness auto
termination
proof (relation "measure (\<lambda>(s, f, truth). length s)")
  show "wf (measure (\<lambda>(s, f, truth). length s))" by simp
next
  fix s :: string and f :: "nat \<Rightarrow> bool" and truth :: bool and x r size i
  assume "s \<noteq> []" and x: "x = DecodeLastRuneInString s" "(r, size) = x"
    and i: "i = length s - size"
  then have "1 \<le> size" using DecodeLastRuneInString_width [of s] by (metis snd_conv)
  with \<open>s \<noteq> []\<close> i show "((take i s, f, truth), (s, f, truth))
      \<in> measure (\<lambda>(s, f, truth). length s)"
    by simp
qed

declare lastIndexFunc.simps [simp del]

definition TrimLeftFunc :: "string \<Rightarrow> (nat \<Rightarrow> bool) \<Rightarrow> string" where
  "TrimLeftFunc s f = (let i = indexFunc s f False in if i = - 1 then [] else drop (nat i) s)"

definition TrimRightFunc :: "string \<Rightarrow> (nat \<Rightarrow> bool) \<Rightarrow> string" where
  "TrimRightFunc s f =
     (let i = lastIndexFunc s f False
      in if i \<ge> 0 \<and> (of_char (s ! nat i) :: nat) \<ge> 0x80
         then let (r, wid) = DecodeRuneInString (drop (nat i) s) in take (nat i + wid) s
         else take (nat (i + 1)) s)"

definition TrimFunc :: "string \<Rightarrow> (nat \<Rightarrow> bool) \<Rightarrow> string" where
  "TrimFunc s f = TrimRightFunc (TrimLeftFunc s f) f"

text \<open>
  \<^verbatim>\<open>strings.TrimSpace\<close>: \<open>s\<close> without its leading and trailing white space, as defined
  by Unicode. (Go's implementation first skips ASCII white space byte by byte, which
  gives the same result.)
\<close>

definition TrimSpace :: "string \<Rightarrow> string" where
  "TrimSpace s = TrimFunc s IsSpace"

text \<open>
  \<^verbatim>\<open>strings.Map\<close>: every rune of \<open>s\<close> replaced by its image, and dropped where the image
  is negative. An invalid byte reaches the mapping as \<open>RuneError\<close>.
\<close>

function strings_Map :: "(nat \<Rightarrow> int) \<Rightarrow> string \<Rightarrow> string" where
  "strings_Map mapping s =
     (if s = [] then []
      else let (c, width) = DecodeRuneInString s;
               r = mapping c
           in (if r \<ge> 0 then EncodeRune (nat r) else []) @ strings_Map mapping (drop width s))"
  by pat_completeness auto
termination
proof (relation "measure (\<lambda>(mapping, s). length s)")
  show "wf (measure (\<lambda>(mapping, s). length s))" by simp
next
  fix mapping :: "nat \<Rightarrow> int" and s :: string and x c width
  assume "s \<noteq> []" and x: "x = DecodeRuneInString s" "(c, width) = x"
  then have "1 \<le> width" using DecodeRuneInString_width [of s] by (metis snd_conv)
  with \<open>s \<noteq> []\<close> show "((mapping, drop width s), (mapping, s))
      \<in> measure (\<lambda>(mapping, s). length s)"
    by simp
qed

declare strings_Map.simps [simp del]

text \<open>\<^verbatim>\<open>strings.Split(s, ",")\<close>: the pieces of \<open>s\<close> between commas; one piece for no comma.\<close>

fun Split_comma :: "string \<Rightarrow> string list" where
  "Split_comma [] = [[]]"
| "Split_comma (c # cs) =
     (if c = CHR '','' then [] # Split_comma cs
      else (case Split_comma cs of
              piece # pieces \<Rightarrow> (c # piece) # pieces
            | [] \<Rightarrow> [[c]]))"

section \<open>String helpers of the package\<close>

definition requiredErr :: "bool \<Rightarrow> string \<Rightarrow> error option" where
  "requiredErr required message =
     (if \<not> required then None
      else let message = TrimSpace message
           in if message \<noteq> [] then Some (errors_New message) else Some errEmpty)"

definition stripSpaces :: "string \<Rightarrow> string" where
  "stripSpaces s = strings_Map (\<lambda>r. if IsSpace r then - 1 else int r) s"

definition isEmptyStr :: "string \<Rightarrow> bool" where
  "isEmptyStr field \<longleftrightarrow> TrimSpace field = []"

section \<open>Pattern and format checks\<close>

text \<open>
  The checks below call Go's regular expressions, mail address parser and network address
  parsers, and three compiled patterns of the package (\<^verbatim>\<open>regURL\<close>, \<^verbatim>\<open>regIBAN\<close>,
  \<^verbatim>\<open>regVAT\<close>). They are parameters of the model: \<open>regexp_MatchString pattern s\<close> is the
  error of a malformed pattern or whether \<open>s\<close> matches; \<open>mail_ParseAddress\<close> and
  \<open>net_ParseMAC\<close> give the error returned, if any; \<open>net_ParseIP\<close> tells whether an
  address was returned.
\<close>

record extern =
  regexp_MatchString :: "string \<Rightarrow> string \<Rightarrow> error + bool"
  mail_ParseAddress :: "string \<Rightarrow> error option"
  regURL_MatchString :: "string \<Rightarrow> bool"
  regIBAN_MatchString :: "string \<Rightarrow> bool"
  regVAT_MatchString :: "string \<Rightarrow> bool"
  net_ParseIP :: "string \<Rightarrow> bool"
  net_ParseMAC :: "string \<Rightarrow> error option"

definition Matches :: "extern \<Rightarrow> string \<Rightarrow> string \<Rightarrow> bool \<Rightarrow> error option" where
  "Matches ext val pattern required =
     (if isEmptyStr val then requiredErr required ''match term cannot be empty''
      else (case regexp_MatchString ext pattern val of
              Inl err \<Rightarrow> Some (fmt_Errorf ''invalid pattern `%s`'' [AString pattern])
            | Inr ok \<Rightarrow>
                if \<not> ok
                then Some (fmt_Errorf ''`%s` does not match pattern `%s`''
                             [AString val, AString pattern])
                else None))"

definition Email :: "extern \<Rightarrow> string \<Rightarrow> bool \<Rightarrow> error option" where
  "Email ext email required =
     (if isEmptyStr email then requiredErr required ''email address cannot be empty''
      else (case mail_ParseAddress ext email of
              Some err \<Rightarrow> Some (fmt_Errorf ''invalid email address `%s`'' [AString email])
            | None \<Rightarrow> None))"

fun EmailList_loop :: "extern \<Rightarrow> string list \<Rightarrow> error option" where
  "EmailList_loop ext [] = None"
| "EmailList_loop ext (email # emails) =
     (case mail_ParseAddress ext email of
        Some err \<Rightarrow> Some (fmt_Errorf ''invalid email address `%s`'' [AString email])
      | None \<Rightarrow> EmailList_loop ext emails)"

definition EmailList :: "extern \<Rightarrow> string \<Rightarrow> bool \<Rightarrow> error option" where
  "EmailList ext list required =
     (let list = stripSpaces list
      in if isEmptyStr list then requiredErr required ''email address list cannot be empty''
         else EmailList_loop ext (Split_comma list))"

definition URL :: "extern \<Rightarrow> string \<Rightarrow> bool \<Rightarrow> error option" where
  "URL ext url required =
     (if isEmptyStr url then requiredErr required ''URL cannot be empty''
      else if \<not> regURL_MatchString ext url
        then Some (fmt_Errorf ''invalid URL `%s`'' [AString url])
      else None)"

definition IBAN :: "extern \<Rightarrow> string \<Rightarrow> bool \<Rightarrow> error option" where
  "IBAN ext iban required =
     (if isEmptyStr iban then requiredErr required ''IBAN cannot be empty''
      else if \<not> regIBAN_MatchString ext iban
        then Some (fmt_Errorf ''invalid IBAN `%s`'' [AString iban])
      else None)"

definition VAT :: "extern \<Rightarrow> string \<Rightarrow> bool \<Rightarrow> error option" where
  "VAT ext vat required =
     (if isEmptyStr vat then requiredErr required ''VAT number cannot be empty''
      else if \<not> regVAT_MatchString ext vat
        then Some (fmt_Errorf ''invalid VAT number `%s`'' [AString vat])
      else None)"

definition IP :: "extern \<Rightarrow> string \<Rightarrow> bool \<Rightarrow> error option" where
  "IP ext ip required =
     (if isEmptyStr ip then requiredErr required ''IP address cannot be empty''
      else if \<not> net_ParseIP ext ip
        then Some (fmt_Errorf ''invalid IP address `%s`'' [AString ip])
      else None)"

definition MAC :: "extern \<Rightarrow> string \<Rightarrow> bool \<Rightarrow> error option" where
  "MAC ext mac required =
     (if isEmptyStr mac then requiredErr required ''MAC address cannot be empty''
      else (case net_ParseMAC ext mac of
              Some err \<Rightarrow> Some (fmt_Errorf ''invalid mac address `%s`'' [AString mac])
            | None \<Rightarrow> None))"

section \<open>Notions for the properties: categories, native order, reflexivity, white space\<close>

text \<open>
  The category of a value is the branch that the \<^verbatim>\<open>switch\<close> of \<^verbatim>\<open>compare\<close> takes for it
  as left operand: the five signed integer kinds, the five unsigned integer kinds
  (\<^verbatim>\<open>uintptr\<close> is not among them), the two float kinds, strings, \<^verbatim>\<open>time.Time\<close>, and
  everything else, which is opaque.
\<close>

datatype category =
  SignedInteger | UnsignedInteger | FloatingPoint | StringCategory | Timestamp | Opaque

definition category_of :: "gval \<Rightarrow> category" where
  "category_of x =
     (let kind = Kind_of x
      in if kind \<in> {KInt, KInt8, KInt16, KInt32, KInt64} then SignedInteger
         else if kind \<in> {KUint, KUint8, KUint16, KUint32, KUint64} then UnsignedInteger
         else if kind \<in> {KFloat32, KFloat64} then FloatingPoint
         else if kind = KString then StringCategory
         else (case x of VTime _ \<Rightarrow> Timestamp | _ \<Rightarrow> Opaque))"

text \<open>The six operators of the enumeration.\<close>

definition valid_op :: "cmpOp \<Rightarrow> bool" where
  "valid_op op \<longleftrightarrow> op \<in> {eq_op, ne_op, lt_op, lte_op, gt_op, gte_op}"

text \<open>
  The instant of a \<^verbatim>\<open>time.Time\<close>, in nanoseconds since January 1 of year 1 UTC. It
  does not mention the location. A \<^verbatim>\<open>time.Time\<close> keeps its nanoseconds below one
  second.
\<close>

definition instant :: "Time \<Rightarrow> int" where
  "instant t = sec t * 1000000000 + int (nsec t)"

definition normal_time :: "Time \<Rightarrow> bool" where
  "normal_time t \<longleftrightarrow> nsec t < 1000000000"

text \<open>
  A value is well formed when, if it is a \<^verbatim>\<open>time.Time\<close>, its nanoseconds are below one
  second.
\<close>

definition well_formed :: "gval \<Rightarrow> bool" where
  "well_formed x = (case x of VTime t \<Rightarrow> normal_time t | _ \<Rightarrow> True)"

text \<open>
  The order \<open>\<le>\<close> that a category has by nature, on two values of that category:
  integers as numbers (signed ones with their sign), floats by IEEE-754, strings byte by
  byte, times by instant. Opaque values have none.
\<close>

definition native_le :: "gval \<Rightarrow> gval \<Rightarrow> bool" where
  "native_le a b =
     (case category_of a of
        SignedInteger \<Rightarrow> sint (Value_Int a) \<le> sint (Value_Int b)
      | UnsignedInteger \<Rightarrow> unat (Value_Uint a) \<le> unat (Value_Uint b)
      | FloatingPoint \<Rightarrow> f64_le (Value_Float a) (Value_Float b)
      | StringCategory \<Rightarrow> Value_String a \<le> Value_String b
      | Timestamp \<Rightarrow>
          (case a of
             VTime t \<Rightarrow> (case b of VTime u \<Rightarrow> instant t \<le> instant u | _ \<Rightarrow> False)
           | _ \<Rightarrow> False)
      | Opaque \<Rightarrow> False)"

text \<open>
  A value is deeply equal to itself unless it is a NaN or a function that is not nil, or
  holds one in an array, in a field of a struct or in an interface. What stands behind a
  pointer, in a slice or in a map does not matter: \<^verbatim>\<open>reflect.DeepEqual\<close> finds the same
  address on both sides and looks no further.
\<close>

fun deeply_reflexive :: "gval \<Rightarrow> bool" where
  "deeply_reflexive (VScalar (SFloat32 w)) = (\<not> f32_isNaN w)"
| "deeply_reflexive (VScalar (SFloat64 w)) = (\<not> f64_isNaN w)"
| "deeply_reflexive (VFunc sig f) = (f = None)"
| "deeply_reflexive (VStruct name fs) = list_all deeply_reflexive fs"
| "deeply_reflexive (VArray ty xs) = list_all deeply_reflexive xs"
| "deeply_reflexive (VIface v) = deeply_reflexive v"
| "deeply_reflexive v = True"

text \<open>
  The strings that consist of white space only: the empty string, and the UTF-8 encoding
  of a white space rune followed by such a string.
\<close>

inductive white_space_only :: "string \<Rightarrow> bool" where
  ws_empty: "white_space_only []"
| ws_rune: "IsSpace r \<Longrightarrow> white_space_only s \<Longrightarrow> white_space_only (EncodeRune r @ s)"

section \<open>Comparison by category\<close>

lemmas op_defs = eq_op_def ne_op_def lt_op_def lte_op_def gt_op_def gte_op_def

lemma valid_op_range: "valid_op op \<longleftrightarrow> \<not> (op < eq_op \<or> op > gte_op)"
  unfolding valid_op_def op_defs by auto

lemma category_of_SignedInteger:
  "category_of x = SignedInteger \<longleftrightarrow> Kind_of x \<in> {KInt, KInt8, KInt16, KInt32, KInt64}"
  by (auto simp: category_of_def Let_def split: gval.splits)

lemma category_of_Timestamp: "category_of x = Timestamp \<longleftrightarrow> (\<exists>t. x = VTime t)"
proof (cases x)
  case (VScalar sc)
  then show ?thesis by (cases sc) (simp_all add: category_of_def)
qed (simp_all add: category_of_def)

text \<open>\<^verbatim>\<open>compare\<close> with a valid operator, by the category of its left operand.\<close>

lemma compare_dispatch:
  assumes "valid_op op" and "cmp_op cmp = op"
  shows "compare x (Some cmp) =
    (case category_of x of
       SignedInteger \<Rightarrow> compareInt64 (Value_Int x) cmp
     | UnsignedInteger \<Rightarrow> compareUint64 (Value_Uint x) cmp
     | FloatingPoint \<Rightarrow> compareFloat64 (Value_Float x) cmp
     | StringCategory \<Rightarrow> compareString (Value_String x) cmp
     | Timestamp \<Rightarrow> (case x of VTime t \<Rightarrow> compareTime t cmp | _ \<Rightarrow> None)
     | Opaque \<Rightarrow> compareInterface x cmp)"
proof -
  have v: "\<not> (cmp_op cmp < eq_op \<or> cmp_op cmp > gte_op)"
    using assms valid_op_range by simp
  show ?thesis
  proof (cases x)
    case (VScalar sc)
    then show ?thesis using v
      by (cases sc) (simp_all add: compare_def category_of_def Let_def toTime_def)
  qed (use v in \<open>simp_all add: compare_def category_of_def Let_def toTime_def\<close>)
qed

text \<open>Each conversion succeeds on the terms of its own category, and on no other.\<close>

lemma toInt64_category:
  "toInt64 trm =
     (if category_of trm = SignedInteger then Inr (Value_Int trm)
      else if trm = VNil then Inl (errors_New ''cannot convert nil to type int64'')
      else Inl (fmt_Errorf ''cannot convert `%v` to type int64'' [AKind (Kind_of trm)]))"
  by (auto simp: toInt64_def category_of_def Let_def split: gval.splits)

lemma toUint64_category:
  "toUint64 trm =
     (if category_of trm = UnsignedInteger then Inr (Value_Uint trm)
      else if trm = VNil then Inl (errors_New ''cannot convert nil to type uint64'')
      else Inl (fmt_Errorf ''cannot convert `%v` to type uint64'' [AKind (Kind_of trm)]))"
  by (auto simp: toUint64_def category_of_def Let_def split: gval.splits)

lemma toFloat64_category:
  "toFloat64 trm =
     (if category_of trm = FloatingPoint then Inr (Value_Float trm)
      else if trm = VNil then Inl (errors_New ''cannot convert nil to type float64'')
      else Inl (fmt_Errorf ''cannot convert `%v` to type float64'' [AKind (Kind_of trm)]))"
  by (auto simp: toFloat64_def category_of_def Let_def split: gval.splits)

lemma toString_category:
  "toString trm =
     (if category_of trm = StringCategory then Inr (Value_String trm)
      else if trm = VNil then Inl (errors_New ''cannot convert nil to type string'')
      else Inl (fmt_Errorf ''cannot convert `%v` to type string'' [AKind (Kind_of trm)]))"
  by (auto simp: toString_def category_of_def Let_def split: gval.splits)

lemma toTime_category:
  "toTime trm =
     (case trm of
        VTime t \<Rightarrow> Inr t
      | VNil \<Rightarrow> Inl (errors_New ''cannot convert nil to type time.Time'')
      | _ \<Rightarrow> Inl (fmt_Errorf ''cannot convert `%v` to time.Time'' [AType (TypeOf trm)]))"
  by (cases trm) (auto simp: toTime_def)

section \<open>Cross-category comparison\<close>

text \<open>
  C2. The left operand alone selects the comparison, and the term is converted to the
  left operand's category: for every signed integer \<open>x\<close>, every operator of the
  enumeration and every string term, \<^verbatim>\<open>compare\<close> returns the conversion error of
  \<^verbatim>\<open>toInt64\<close>, which names the kind of the term, \<open>string\<close>; it is not the error of a
  failed comparison, and no string is compared. So does \<^verbatim>\<open>Lt\<close>, as in \<^verbatim>\<open>Lt(3, "3")\<close>.
  The other way round, a string \<open>x\<close> with a signed integer term fails in \<^verbatim>\<open>toString\<close>,
  with the kind of the integer term.
\<close>

theorem compare_signed_with_string:
  assumes "category_of x = SignedInteger" and "valid_op op"
  shows "compare x (Some \<lparr>cmp_op = op, cmp_term = VScalar (SString s)\<rparr>) =
           Some (fmt_Errorf ''cannot convert `%v` to type int64'' [AKind KString])
       \<and> Lt x (VScalar (SString s)) =
           Some (fmt_Errorf ''cannot convert `%v` to type int64'' [AKind KString])
       \<and> compare (VScalar (SString s)) (Some \<lparr>cmp_op = op, cmp_term = x\<rparr>) =
           Some (fmt_Errorf ''cannot convert `%v` to type string'' [AKind (Kind_of x)])"
proof -
  have lt: "valid_op lt_op" by (simp add: valid_op_def)
  have s: "category_of (VScalar (SString s)) = StringCategory"
    by (simp add: category_of_def)
  have n: "x \<noteq> VNil" using assms(1) by (auto simp: category_of_def)
  have 1: "compare x (Some \<lparr>cmp_op = op, cmp_term = VScalar (SString s)\<rparr>) =
           Some (fmt_Errorf ''cannot convert `%v` to type int64'' [AKind KString])"
    using assms by (simp add: compare_dispatch [where op = op] compareInt64_def toInt64_def)
  have 2: "Lt x (VScalar (SString s)) =
           Some (fmt_Errorf ''cannot convert `%v` to type int64'' [AKind KString])"
    using assms(1)
    by (simp add: Lt_def newCmpField_def op_defs compare_dispatch [OF lt] compareInt64_def
        toInt64_def)
  have 3: "compare (VScalar (SString s)) (Some \<lparr>cmp_op = op, cmp_term = x\<rparr>) =
           Some (fmt_Errorf ''cannot convert `%v` to type string'' [AKind (Kind_of x)])"
    using assms n s
    by (simp add: compare_dispatch [where op = op] compareString_def toString_category)
  from 1 2 3 show ?thesis by blast
qed

theorem compare_signed_with_string_witness:
  "category_of (VScalar (SInt 3)) = SignedInteger \<and> valid_op lt_op
   \<and> compare (VScalar (SInt 3)) (Some \<lparr>cmp_op = lt_op, cmp_term = VScalar (SString ''3'')\<rparr>) =
       Some (fmt_Errorf ''cannot convert `%v` to type int64'' [AKind KString])
   \<and> Lt (VScalar (SInt 3)) (VScalar (SString ''3'')) =
       Some (fmt_Errorf ''cannot convert `%v` to type int64'' [AKind KString])"
proof -
  have c: "category_of (VScalar (SInt 3)) = SignedInteger"
    by (simp add: category_of_def)
  have v: "valid_op lt_op" by (simp add: valid_op_def)
  show ?thesis
    using c v compare_signed_with_string [OF c v, of "''3''"] by simp
qed

section \<open>Opaque values\<close>

text \<open>
  C3. For every opaque left operand \<open>x\<close> (not a number of the three numeric categories,
  not a string, not a \<^verbatim>\<open>time.Time\<close>), every ordering operator and every term,
  \<^verbatim>\<open>compare\<close> fails with the error \<^verbatim>\<open>invalid operation\<close>, whose arguments are the name of
  the operator and the two operands. Equal and not equal are decided by
  \<^verbatim>\<open>reflect.DeepEqual\<close>.
\<close>

theorem compare_opaque_ordering:
  assumes "category_of x = Opaque" and "op \<in> {lt_op, lte_op, gt_op, gte_op}"
  shows "compare x (Some \<lparr>cmp_op = op, cmp_term = trm\<rparr>) =
           Some (fmt_Errorf ''invalid operation `%s` for values `%v` and `%v`''
                   [AString (cmpOps op), AValue x, AValue trm])
       \<and> cmpOps op \<in> {''lt'', ''lte'', ''gt'', ''gte''}
       \<and> (compare x (Some \<lparr>cmp_op = eq_op, cmp_term = trm\<rparr>) = None \<longleftrightarrow> DeepEqual x trm)
       \<and> (compare x (Some \<lparr>cmp_op = ne_op, cmp_term = trm\<rparr>) = None \<longleftrightarrow> \<not> DeepEqual x trm)"
proof -
  have v: "valid_op op" "valid_op eq_op" "valid_op ne_op"
    using assms(2) by (auto simp: valid_op_def)
  have o: "op \<noteq> eq_op" "op \<noteq> ne_op"
    using assms(2) by (auto simp: op_defs)
  have 1: "compare x (Some \<lparr>cmp_op = op, cmp_term = trm\<rparr>) =
           Some (fmt_Errorf ''invalid operation `%s` for values `%v` and `%v`''
                   [AString (cmpOps op), AValue x, AValue trm])"
    using assms(1) o by (simp add: compare_dispatch [OF v(1)] compareInterface_def)
  have 2: "cmpOps op \<in> {''lt'', ''lte'', ''gt'', ''gte''}"
    using assms(2) by (auto simp: cmpOps_def op_defs)
  have 3: "compare x (Some \<lparr>cmp_op = eq_op, cmp_term = trm\<rparr>) = None \<longleftrightarrow> DeepEqual x trm"
    using assms(1) by (simp add: compare_dispatch [OF v(2)] compareInterface_def equals_def equal'_def)
  have 4: "compare x (Some \<lparr>cmp_op = ne_op, cmp_term = trm\<rparr>) = None \<longleftrightarrow> \<not> DeepEqual x trm"
    using assms(1)
    by (simp add: compare_dispatch [OF v(3)] compareInterface_def equals_def equal'_def op_defs)
  from 1 2 3 4 show ?thesis by blast
qed

theorem compare_opaque_ordering_witness:
  "category_of (VSlice TInt 1 [VScalar (SInt 1)]) = Opaque
   \<and> lt_op \<in> {lt_op, lte_op, gt_op, gte_op}
   \<and> compare (VSlice TInt 1 [VScalar (SInt 1)])
        (Some \<lparr>cmp_op = lt_op, cmp_term = VSlice TInt 2 [VScalar (SInt 2)]\<rparr>) =
       Some (fmt_Errorf ''invalid operation `%s` for values `%v` and `%v`''
               [AString ''lt'', AValue (VSlice TInt 1 [VScalar (SInt 1)]),
                AValue (VSlice TInt 2 [VScalar (SInt 2)])])"
proof -
  have c: "category_of (VSlice TInt 1 [VScalar (SInt 1)]) = Opaque"
    by (simp add: category_of_def)
  have o: "lt_op \<in> {lt_op, lte_op, gt_op, gte_op}" by simp
  show ?thesis
    using c compare_opaque_ordering [OF c o, of "VSlice TInt 2 [VScalar (SInt 2)]"]
    by (simp add: cmpOps_def op_defs)
qed

section \<open>Equal and not equal\<close>

lemma compare_ne_iff_not_eq:
  assumes "category_of trm = category_of x \<or> category_of x = Opaque"
  shows "compare x (Some \<lparr>cmp_op = ne_op, cmp_term = trm\<rparr>) = None
     \<longleftrightarrow> compare x (Some \<lparr>cmp_op = eq_op, cmp_term = trm\<rparr>) \<noteq> None"
proof -
  have v: "valid_op eq_op" "valid_op ne_op" by (auto simp: valid_op_def)
  have n: "ne_op \<noteq> eq_op" by (simp add: op_defs)
  show ?thesis
  proof (cases "category_of x")
    case SignedInteger
    then show ?thesis using assms n
      by (simp add: compare_dispatch [OF v(1)] compare_dispatch [OF v(2)] compareInt64_def
          toInt64_category Let_def)
  next
    case UnsignedInteger
    then show ?thesis using assms n
      by (simp add: compare_dispatch [OF v(1)] compare_dispatch [OF v(2)] compareUint64_def
          toUint64_category Let_def)
  next
    case FloatingPoint
    then show ?thesis using assms n
      by (simp add: compare_dispatch [OF v(1)] compare_dispatch [OF v(2)] compareFloat64_def
          toFloat64_category Let_def)
  next
    case StringCategory
    then show ?thesis using assms n
      by (simp add: compare_dispatch [OF v(1)] compare_dispatch [OF v(2)] compareString_def
          toString_category Let_def)
  next
    case Timestamp
    then obtain t where t: "x = VTime t"
      using category_of_Timestamp by blast
    from assms Timestamp have "category_of trm = Timestamp" by auto
    then obtain u where "trm = VTime u"
      using category_of_Timestamp by blast
    with t show ?thesis using Timestamp n
      by (simp add: compare_dispatch [OF v(1)] compare_dispatch [OF v(2)] compareTime_def
          toTime_def Let_def)
  next
    case Opaque
    then show ?thesis using n
      by (simp add: compare_dispatch [OF v(1)] compare_dispatch [OF v(2)] compareInterface_def
          Let_def)
  qed
qed

text \<open>
  When the term is of another category than a left operand that is not opaque, the
  conversion of the term fails, whatever the operator: the error is that of the
  conversion, the same for both operators.
\<close>

lemma compare_other_category:
  assumes "category_of trm \<noteq> category_of x" and "category_of x \<noteq> Opaque"
    and "valid_op op"
  shows "\<exists>err. (\<forall>op'. valid_op op' \<longrightarrow>
            compare x (Some \<lparr>cmp_op = op', cmp_term = trm\<rparr>) = Some err)"
proof (cases "category_of x")
  case SignedInteger
  then show ?thesis using assms
    by (auto simp: compare_dispatch compareInt64_def toInt64_category)
next
  case UnsignedInteger
  then show ?thesis using assms
    by (auto simp: compare_dispatch compareUint64_def toUint64_category)
next
  case FloatingPoint
  then show ?thesis using assms
    by (auto simp: compare_dispatch compareFloat64_def toFloat64_category)
next
  case StringCategory
  then show ?thesis using assms
    by (auto simp: compare_dispatch compareString_def toString_category)
next
  case Timestamp
  then obtain t where t: "x = VTime t"
    using category_of_Timestamp by blast
  have "\<nexists>u. trm = VTime u"
    using assms(1) Timestamp category_of_Timestamp by metis
  then have "\<exists>err. toTime trm = Inl err"
    by (cases trm) (auto simp: toTime_category)
  then show ?thesis using t Timestamp
    by (auto simp: compare_dispatch compareTime_def)
next
  case Opaque
  then show ?thesis using assms by simp
qed

text \<open>
  C4 as stated fails: for the integer 3 and the string \<^verbatim>\<open>"3"\<close>, not equal fails and
  equal fails too, both with the conversion error.
\<close>

theorem ne_eq_duality_counterexample:
  "\<not> (compare (VScalar (SInt 3)) (Some \<lparr>cmp_op = ne_op, cmp_term = VScalar (SString ''3'')\<rparr>) = None
      \<longleftrightarrow> compare (VScalar (SInt 3))
            (Some \<lparr>cmp_op = eq_op, cmp_term = VScalar (SString ''3'')\<rparr>) \<noteq> None)"
  by (simp add: compare_def compareInt64_def toInt64_def op_defs)

text \<open>
  C4, amended. For every \<open>x\<close> and every term of the category of \<open>x\<close>, and for every
  opaque \<open>x\<close> with any term, \<^verbatim>\<open>compare\<close> with not equal succeeds if and only if
  \<^verbatim>\<open>compare\<close> with equal fails. For a term of another category than \<open>x\<close>, where \<open>x\<close>
  is not opaque, both fail, with the same error.
\<close>

theorem ne_succeeds_iff_eq_fails:
  "(category_of trm = category_of x \<or> category_of x = Opaque \<longrightarrow>
      (compare x (Some \<lparr>cmp_op = ne_op, cmp_term = trm\<rparr>) = None
       \<longleftrightarrow> compare x (Some \<lparr>cmp_op = eq_op, cmp_term = trm\<rparr>) \<noteq> None))
   \<and> (category_of trm \<noteq> category_of x \<and> category_of x \<noteq> Opaque \<longrightarrow>
      compare x (Some \<lparr>cmp_op = ne_op, cmp_term = trm\<rparr>) \<noteq> None
      \<and> compare x (Some \<lparr>cmp_op = ne_op, cmp_term = trm\<rparr>) =
          compare x (Some \<lparr>cmp_op = eq_op, cmp_term = trm\<rparr>))"
proof (intro conjI impI)
  assume "category_of trm = category_of x \<or> category_of x = Opaque"
  then show "compare x (Some \<lparr>cmp_op = ne_op, cmp_term = trm\<rparr>) = None
       \<longleftrightarrow> compare x (Some \<lparr>cmp_op = eq_op, cmp_term = trm\<rparr>) \<noteq> None"
    by (rule compare_ne_iff_not_eq)
next
  assume a: "category_of trm \<noteq> category_of x \<and> category_of x \<noteq> Opaque"
  have v: "valid_op eq_op" "valid_op ne_op" by (auto simp: valid_op_def)
  from a v(1) obtain err where
    e: "\<And>op'. valid_op op' \<Longrightarrow> compare x (Some \<lparr>cmp_op = op', cmp_term = trm\<rparr>) = Some err"
    using compare_other_category [of trm x eq_op] by blast
  show "compare x (Some \<lparr>cmp_op = ne_op, cmp_term = trm\<rparr>) \<noteq> None"
    using e [OF v(2)] by simp
  show "compare x (Some \<lparr>cmp_op = ne_op, cmp_term = trm\<rparr>) =
          compare x (Some \<lparr>cmp_op = eq_op, cmp_term = trm\<rparr>)"
    using e [OF v(1)] e [OF v(2)] by simp
qed

theorem ne_succeeds_iff_eq_fails_witness:
  "(category_of (VScalar (SInt 4)) = category_of (VScalar (SInt 3))
    \<and> compare (VScalar (SInt 3)) (Some \<lparr>cmp_op = ne_op, cmp_term = VScalar (SInt 4)\<rparr>) = None
    \<and> compare (VScalar (SInt 3)) (Some \<lparr>cmp_op = eq_op, cmp_term = VScalar (SInt 4)\<rparr>) \<noteq> None)
   \<and> (category_of (VScalar (SString ''3'')) \<noteq> category_of (VScalar (SInt 3))
      \<and> category_of (VScalar (SInt 3)) \<noteq> Opaque
      \<and> compare (VScalar (SInt 3)) (Some \<lparr>cmp_op = ne_op, cmp_term = VScalar (SString ''3'')\<rparr>) =
          compare (VScalar (SInt 3)) (Some \<lparr>cmp_op = eq_op, cmp_term = VScalar (SString ''3'')\<rparr>))"
proof -
  have c: "category_of (VScalar (SInt 4)) = category_of (VScalar (SInt 3))"
    "category_of (VScalar (SString ''3'')) \<noteq> category_of (VScalar (SInt 3))"
    "category_of (VScalar (SInt 3)) \<noteq> Opaque"
    by (simp_all add: category_of_def)
  have e: "compare (VScalar (SInt 3)) (Some \<lparr>cmp_op = eq_op, cmp_term = VScalar (SInt 4)\<rparr>) \<noteq> None"
    by (simp add: compare_def compareInt64_def toInt64_def op_defs)
  show ?thesis
    using c e ne_succeeds_iff_eq_fails [of "VScalar (SInt 4)" "VScalar (SInt 3)"]
      ne_succeeds_iff_eq_fails [of "VScalar (SString ''3'')" "VScalar (SInt 3)"]
    by simp
qed

section \<open>Instants and native order\<close>

text \<open>Seconds and nanoseconds are compared like the instants they make up.\<close>

lemma lex_instant_less:
  fixes a b :: int and m n :: nat
  assumes "m < 1000000000" and "n < 1000000000"
  shows "a * 1000000000 + int m < b * 1000000000 + int n \<longleftrightarrow> a < b \<or> a = b \<and> m < n"
proof (cases "a < b")
  case True
  then show ?thesis using assms by linarith
next
  case False
  show ?thesis
  proof (cases "a = b")
    case True
    then show ?thesis by simp
  next
    case False
    with \<open>\<not> a < b\<close> have "b < a" by simp
    then show ?thesis using assms by linarith
  qed
qed

lemma lex_instant_eq:
  fixes a b :: int and m n :: nat
  assumes "m < 1000000000" and "n < 1000000000"
  shows "a * 1000000000 + int m = b * 1000000000 + int n \<longleftrightarrow> a = b \<and> m = n"
  using lex_instant_less [OF assms, of a b] lex_instant_less [OF assms(2) assms(1), of b a]
  by auto

lemma Time_Equal_instant:
  "normal_time t \<Longrightarrow> normal_time u \<Longrightarrow> Time_Equal t u \<longleftrightarrow> instant t = instant u"
  unfolding Time_Equal_def instant_def normal_time_def by (simp add: lex_instant_eq)

lemma Time_Before_instant:
  "normal_time t \<Longrightarrow> normal_time u \<Longrightarrow> Time_Before t u \<longleftrightarrow> instant t < instant u"
  unfolding Time_Before_def instant_def normal_time_def by (simp add: lex_instant_less)

lemma Time_After_instant:
  "normal_time t \<Longrightarrow> normal_time u \<Longrightarrow> Time_After t u \<longleftrightarrow> instant t > instant u"
  unfolding Time_After_def instant_def normal_time_def by (auto simp add: lex_instant_less)


text \<open>
  \<^verbatim>\<open>time.Time\<close>'s \<^verbatim>\<open>Equal\<close>, \<^verbatim>\<open>Before\<close> and \<^verbatim>\<open>After\<close> compare instants.
\<close>

lemma compareTime_lte_gte:
  assumes n: "normal_time t" "normal_time u"
  shows "compareTime t \<lparr>cmp_op = lte_op, cmp_term = VTime u\<rparr> = None \<longleftrightarrow> instant t \<le> instant u"
    and "compareTime t \<lparr>cmp_op = gte_op, cmp_term = VTime u\<rparr> = None \<longleftrightarrow> instant u \<le> instant t"
  using Time_Equal_instant [OF n] Time_Before_instant [OF n] Time_After_instant [OF n]
  by (auto simp add: compareTime_def toTime_def Let_def op_defs)

lemma compare_lte_gte:
  assumes "category_of x \<noteq> Opaque" and "category_of trm = category_of x"
    and "well_formed x" and "well_formed trm"
  shows "(compare x (Some \<lparr>cmp_op = lte_op, cmp_term = trm\<rparr>) = None \<longleftrightarrow> native_le x trm)
       \<and> (compare x (Some \<lparr>cmp_op = gte_op, cmp_term = trm\<rparr>) = None \<longleftrightarrow> native_le trm x)"
proof -
  have v: "valid_op lte_op" "valid_op gte_op" by (auto simp: valid_op_def)
  show ?thesis
  proof (cases "category_of x")
    case SignedInteger
    then show ?thesis using assms(2)
      by (simp add: compare_dispatch [OF v(1)] compare_dispatch [OF v(2)] compareInt64_def
          toInt64_category Let_def native_le_def op_defs)
  next
    case UnsignedInteger
    then show ?thesis using assms(2)
      by (simp add: compare_dispatch [OF v(1)] compare_dispatch [OF v(2)] compareUint64_def
          toUint64_category Let_def native_le_def op_defs word_le_nat_alt)
  next
    case FloatingPoint
    then show ?thesis using assms(2)
      by (simp add: compare_dispatch [OF v(1)] compare_dispatch [OF v(2)] compareFloat64_def
          toFloat64_category Let_def native_le_def op_defs)
  next
    case StringCategory
    then show ?thesis using assms(2)
      by (simp add: compare_dispatch [OF v(1)] compare_dispatch [OF v(2)] compareString_def
          toString_category Let_def native_le_def op_defs)
  next
    case Timestamp
    then obtain t where t: "x = VTime t"
      using category_of_Timestamp by blast
    from assms(2) Timestamp have c: "category_of trm = Timestamp" by simp
    then obtain u where u: "trm = VTime u"
      using category_of_Timestamp by blast
    have n: "normal_time t" "normal_time u"
      using assms(3,4) t u by (simp_all add: well_formed_def)
    show ?thesis
      using Timestamp c compareTime_lte_gte [OF n] compareTime_lte_gte [OF n(2) n(1)]
      unfolding t u
      by (simp add: compare_dispatch [OF v(1)] compare_dispatch [OF v(2)] native_le_def)
  next
    case Opaque
    then show ?thesis using assms(1) by simp
  qed
qed

lemma Between_both:
  "Between x lower upper = None \<longleftrightarrow>
     compare x (Some \<lparr>cmp_op = gte_op, cmp_term = lower\<rparr>) = None
     \<and> compare x (Some \<lparr>cmp_op = lte_op, cmp_term = upper\<rparr>) = None"
  by (simp add: Between_def newCmpField_def op_defs split: option.splits)

lemma Between_lower_error:
  "compare x (Some \<lparr>cmp_op = gte_op, cmp_term = lower\<rparr>) = Some e \<Longrightarrow>
     Between x lower upper = Some e"
  by (simp add: Between_def newCmpField_def op_defs)

section \<open>Range check\<close>

text \<open>
  C5. For \<open>x\<close>, \<open>lo\<close> and \<open>hi\<close> of one category that has an order (any but the opaque
  one), \<^verbatim>\<open>Between(x, lo, hi)\<close> succeeds if and only if \<open>lo \<le> x\<close> and \<open>x \<le> hi\<close> in the
  native order of the category. The lower bound is compared first: when that comparison
  fails with an error \<open>e\<close>, \<^verbatim>\<open>Between\<close> returns \<open>e\<close> whatever the upper bound is, of
  any category; the upper bound is not looked at.
\<close>

theorem Between_iff_in_range:
  assumes "category_of x \<noteq> Opaque"
    and "category_of lo = category_of x" and "category_of hi = category_of x"
    and "well_formed x" and "well_formed lo" and "well_formed hi"
  shows "(Between x lo hi = None \<longleftrightarrow> native_le lo x \<and> native_le x hi)
       \<and> (\<forall>e upper. compare x (Some \<lparr>cmp_op = gte_op, cmp_term = lo\<rparr>) = Some e \<longrightarrow>
             Between x lo upper = Some e)"
  using compare_lte_gte [OF assms(1,2,4,5)] compare_lte_gte [OF assms(1,3,4,6)]
  by (simp add: Between_both Between_lower_error)


theorem Between_iff_in_range_witness:
  "category_of (VScalar (SInt 5)) \<noteq> Opaque
   \<and> category_of (VScalar (SInt 1)) = category_of (VScalar (SInt 5))
   \<and> category_of (VScalar (SInt 10)) = category_of (VScalar (SInt 5))
   \<and> well_formed (VScalar (SInt 5)) \<and> well_formed (VScalar (SInt 1))
   \<and> well_formed (VScalar (SInt 10))
   \<and> native_le (VScalar (SInt 1)) (VScalar (SInt 5))
   \<and> native_le (VScalar (SInt 5)) (VScalar (SInt 10))
   \<and> Between (VScalar (SInt 5)) (VScalar (SInt 1)) (VScalar (SInt 10)) = None
   \<and> Between (VScalar (SInt 2)) (VScalar (SInt 3)) (VScalar (SString ''z'')) =
       Some (fmt_Errorf (cmpErrs gte_op)
               [AString ''gte'', AValue (VScalar (SInt64 2)), AValue (VScalar (SInt64 3))])"
proof -
  have c: "category_of (VScalar (SInt 5)) \<noteq> Opaque"
    "category_of (VScalar (SInt 1)) = category_of (VScalar (SInt 5))"
    "category_of (VScalar (SInt 10)) = category_of (VScalar (SInt 5))"
    by (simp_all add: category_of_def)
  have w: "well_formed (VScalar (SInt 5))" "well_formed (VScalar (SInt 1))"
    "well_formed (VScalar (SInt 10))"
    by (simp_all add: well_formed_def)
  have n: "native_le (VScalar (SInt 1)) (VScalar (SInt 5))"
    "native_le (VScalar (SInt 5)) (VScalar (SInt 10))"
    by (simp_all add: native_le_def category_of_def)
  have c': "category_of (VScalar (SInt 2)) \<noteq> Opaque"
    "category_of (VScalar (SInt 3)) = category_of (VScalar (SInt 2))"
    "category_of (VScalar (SInt 4)) = category_of (VScalar (SInt 2))"
    by (simp_all add: category_of_def)
  have w': "well_formed (VScalar (SInt 2))" "well_formed (VScalar (SInt 3))"
    "well_formed (VScalar (SInt 4))"
    by (simp_all add: well_formed_def)
  have e: "compare (VScalar (SInt 2)) (Some \<lparr>cmp_op = gte_op, cmp_term = VScalar (SInt 3)\<rparr>) =
      Some (fmt_Errorf (cmpErrs gte_op)
              [AString ''gte'', AValue (VScalar (SInt64 2)), AValue (VScalar (SInt64 3))])"
    by (simp add: compare_def compareInt64_def toInt64_def cmpOps_def op_defs)
  show ?thesis
    using c w n e Between_iff_in_range [OF c w] Between_iff_in_range [OF c' w'] by simp
qed

section \<open>Timestamps\<close>

lemma compareTime_success:
  assumes n: "normal_time t" "normal_time u"
  shows "compareTime t \<lparr>cmp_op = eq_op, cmp_term = VTime u\<rparr> = None \<longleftrightarrow> instant t = instant u"
    and "compareTime t \<lparr>cmp_op = ne_op, cmp_term = VTime u\<rparr> = None \<longleftrightarrow> instant t \<noteq> instant u"
    and "compareTime t \<lparr>cmp_op = lt_op, cmp_term = VTime u\<rparr> = None \<longleftrightarrow> instant t < instant u"
    and "compareTime t \<lparr>cmp_op = gt_op, cmp_term = VTime u\<rparr> = None \<longleftrightarrow> instant u < instant t"
  using Time_Equal_instant [OF n] Time_Before_instant [OF n] Time_After_instant [OF n]
  by (auto simp add: compareTime_def toTime_def Let_def op_defs)

lemma compare_VTime:
  "valid_op op \<Longrightarrow>
     compare (VTime t) (Some \<lparr>cmp_op = op, cmp_term = trm\<rparr>) =
       compareTime t \<lparr>cmp_op = op, cmp_term = trm\<rparr>"
  by (simp add: compare_dispatch [where op = op] category_of_def)

text \<open>Whether a comparison of two times succeeds does not depend on their locations.\<close>

lemma compareTime_loc:
  "compareTime (t\<lparr>loc := l1\<rparr>) \<lparr>cmp_op = op, cmp_term = VTime (u\<lparr>loc := l2\<rparr>)\<rparr> = None
     \<longleftrightarrow> compareTime t \<lparr>cmp_op = op, cmp_term = VTime u\<rparr> = None"
  by (simp add: compareTime_def toTime_def Let_def Time_Equal_def Time_Before_def
      Time_After_def)

text \<open>
  C7. Two times are compared by their instants: on well-formed times (nanoseconds below
  one second), \<^verbatim>\<open>compare\<close> with equal succeeds exactly when the instants are equal, with
  not equal when they differ, with less than (less than or equal, greater than, greater
  than or equal) exactly when the instant of \<open>x\<close> is before (before or at, after, after
  or at) the instant of the term. The instant does not mention the location, so two
  times of the same instant in different locations are equal; and for every operator,
  putting the operands into other locations does not change whether \<^verbatim>\<open>compare\<close>
  succeeds.
\<close>

theorem compare_time_by_instant:
  assumes "normal_time t1" and "normal_time t2"
  shows "(compare (VTime t1) (Some \<lparr>cmp_op = eq_op, cmp_term = VTime t2\<rparr>) = None
            \<longleftrightarrow> instant t1 = instant t2)
       \<and> (compare (VTime t1) (Some \<lparr>cmp_op = ne_op, cmp_term = VTime t2\<rparr>) = None
            \<longleftrightarrow> instant t1 \<noteq> instant t2)
       \<and> (compare (VTime t1) (Some \<lparr>cmp_op = lt_op, cmp_term = VTime t2\<rparr>) = None
            \<longleftrightarrow> instant t1 < instant t2)
       \<and> (compare (VTime t1) (Some \<lparr>cmp_op = lte_op, cmp_term = VTime t2\<rparr>) = None
            \<longleftrightarrow> instant t1 \<le> instant t2)
       \<and> (compare (VTime t1) (Some \<lparr>cmp_op = gt_op, cmp_term = VTime t2\<rparr>) = None
            \<longleftrightarrow> instant t1 > instant t2)
       \<and> (compare (VTime t1) (Some \<lparr>cmp_op = gte_op, cmp_term = VTime t2\<rparr>) = None
            \<longleftrightarrow> instant t1 \<ge> instant t2)
       \<and> instant (t1\<lparr>loc := l1\<rparr>) = instant t1
       \<and> (\<forall>op. valid_op op \<longrightarrow>
            (compare (VTime (t1\<lparr>loc := l1\<rparr>)) (Some \<lparr>cmp_op = op, cmp_term = VTime (t2\<lparr>loc := l2\<rparr>)\<rparr>)
               = None
             \<longleftrightarrow> compare (VTime t1) (Some \<lparr>cmp_op = op, cmp_term = VTime t2\<rparr>) = None))"
proof -
  have v: "valid_op eq_op" "valid_op ne_op" "valid_op lt_op" "valid_op lte_op"
    "valid_op gt_op" "valid_op gte_op"
    by (simp_all add: valid_op_def)
  have i: "instant (t1\<lparr>loc := l1\<rparr>) = instant t1"
    by (simp add: instant_def)
  have l: "\<forall>op. valid_op op \<longrightarrow>
      (compare (VTime (t1\<lparr>loc := l1\<rparr>)) (Some \<lparr>cmp_op = op, cmp_term = VTime (t2\<lparr>loc := l2\<rparr>)\<rparr>)
         = None
       \<longleftrightarrow> compare (VTime t1) (Some \<lparr>cmp_op = op, cmp_term = VTime t2\<rparr>) = None)"
    by (simp add: compare_VTime compareTime_loc)
  show ?thesis
    using compareTime_success [OF assms] compareTime_lte_gte [OF assms] i l
    by (simp add: compare_VTime v)
qed

theorem compare_time_by_instant_witness:
  "normal_time \<lparr>sec = 63000000000, nsec = 5, loc = None\<rparr>
   \<and> normal_time \<lparr>sec = 63000000000, nsec = 5, loc = Some (Location ''CET'' 3600)\<rparr>
   \<and> instant \<lparr>sec = 63000000000, nsec = 5, loc = None\<rparr> =
       instant \<lparr>sec = 63000000000, nsec = 5, loc = Some (Location ''CET'' 3600)\<rparr>
   \<and> compare (VTime \<lparr>sec = 63000000000, nsec = 5, loc = None\<rparr>)
        (Some \<lparr>cmp_op = eq_op,
               cmp_term = VTime \<lparr>sec = 63000000000, nsec = 5, loc = Some (Location ''CET'' 3600)\<rparr>\<rparr>)
       = None"
proof -
  have n: "normal_time \<lparr>sec = 63000000000, nsec = 5, loc = None\<rparr>"
    "normal_time \<lparr>sec = 63000000000, nsec = 5, loc = Some (Location ''CET'' 3600)\<rparr>"
    by (simp_all add: normal_time_def)
  have i: "instant \<lparr>sec = 63000000000, nsec = 5, loc = None\<rparr> =
       instant \<lparr>sec = 63000000000, nsec = 5, loc = Some (Location ''CET'' 3600)\<rparr>"
    by (simp add: instant_def)
  show ?thesis
    using n i compare_time_by_instant [OF n] by simp
qed

section \<open>Membership\<close>

lemma newCmpField_eq: "newCmpField eq_op c = Inr \<lparr>cmp_op = eq_op, cmp_term = c\<rparr>"
  by (simp add: newCmpField_def op_defs)

lemma In_loop_None_iff:
  "In_loop x elems rest = None \<longleftrightarrow>
     (\<exists>c \<in> set rest. compare x (Some \<lparr>cmp_op = eq_op, cmp_term = c\<rparr>) = None)"
  by (induction rest) (auto simp: newCmpField_eq split: option.splits)

lemma In_loop_error:
  "In_loop x elems rest = Some e \<Longrightarrow>
     e = fmt_Errorf ''`in` comparison failed: `%v` not in `%v`'' [AValue x, AValues elems]"
  by (induction rest) (auto simp: newCmpField_eq split: option.splits)

lemma NotIn_loop_None_iff:
  "NotIn_loop x elems rest = None \<longleftrightarrow>
     (\<forall>c \<in> set rest. compare x (Some \<lparr>cmp_op = eq_op, cmp_term = c\<rparr>) \<noteq> None)"
  by (induction rest) (auto simp: newCmpField_eq split: option.splits)

lemma NotIn_loop_error:
  "NotIn_loop x elems rest = Some e \<Longrightarrow>
     e = fmt_Errorf ''`not in` comparison failed: `%v` in `%v`'' [AValue x, AValues elems]"
  by (induction rest) (auto simp: newCmpField_eq split: option.splits)

text \<open>
  C10. A candidate for which \<^verbatim>\<open>compare\<close> with equal returns an error, a conversion error
  included, counts as no match, and the loop goes on with the candidates after it. So
  \<^verbatim>\<open>In\<close> succeeds exactly when \<^verbatim>\<open>compare\<close> with equal succeeds for some candidate, and
  \<^verbatim>\<open>NotIn\<close> exactly when it succeeds for none; the only error either returns is its own,
  never the error of a comparison. \<^verbatim>\<open>In(3, "a", 3)\<close> and \<^verbatim>\<open>NotIn(3, "a")\<close> succeed, though
  comparing 3 with \<^verbatim>\<open>"a"\<close> gives a conversion error.
\<close>

theorem In_NotIn_swallow_errors:
  "(\<forall>e. compare x (Some \<lparr>cmp_op = eq_op, cmp_term = c\<rparr>) = Some e \<longrightarrow>
        In_loop x elems (c # rest) = In_loop x elems rest
        \<and> NotIn_loop x elems (c # rest) = NotIn_loop x elems rest)
   \<and> (In x elems = None \<longleftrightarrow>
        (\<exists>c \<in> set elems. compare x (Some \<lparr>cmp_op = eq_op, cmp_term = c\<rparr>) = None))
   \<and> (In x elems \<noteq> None \<longrightarrow>
        In x elems =
          Some (fmt_Errorf ''`in` comparison failed: `%v` not in `%v`'' [AValue x, AValues elems]))
   \<and> (NotIn x elems = None \<longleftrightarrow>
        (\<forall>c \<in> set elems. compare x (Some \<lparr>cmp_op = eq_op, cmp_term = c\<rparr>) \<noteq> None))
   \<and> (NotIn x elems \<noteq> None \<longrightarrow>
        NotIn x elems =
          Some (fmt_Errorf ''`not in` comparison failed: `%v` in `%v`''
                  [AValue x, AValues elems]))
   \<and> compare (VScalar (SInt 3)) (Some \<lparr>cmp_op = eq_op, cmp_term = VScalar (SString ''a'')\<rparr>) =
        Some (fmt_Errorf ''cannot convert `%v` to type int64'' [AKind KString])
   \<and> In (VScalar (SInt 3)) [VScalar (SString ''a''), VScalar (SInt 3)] = None
   \<and> NotIn (VScalar (SInt 3)) [VScalar (SString ''a'')] = None"
proof -
  have 1: "\<forall>e. compare x (Some \<lparr>cmp_op = eq_op, cmp_term = c\<rparr>) = Some e \<longrightarrow>
        In_loop x elems (c # rest) = In_loop x elems rest
        \<and> NotIn_loop x elems (c # rest) = NotIn_loop x elems rest"
    by (simp add: newCmpField_eq)
  have 2: "In x elems = None \<longleftrightarrow>
        (\<exists>c \<in> set elems. compare x (Some \<lparr>cmp_op = eq_op, cmp_term = c\<rparr>) = None)"
    by (simp add: In_def In_loop_None_iff)
  have 3: "In x elems \<noteq> None \<longrightarrow>
        In x elems =
          Some (fmt_Errorf ''`in` comparison failed: `%v` not in `%v`'' [AValue x, AValues elems])"
    using In_loop_error [of x elems elems] by (auto simp: In_def)
  have 4: "NotIn x elems = None \<longleftrightarrow>
        (\<forall>c \<in> set elems. compare x (Some \<lparr>cmp_op = eq_op, cmp_term = c\<rparr>) \<noteq> None)"
    by (simp add: NotIn_def NotIn_loop_None_iff)
  have 5: "NotIn x elems \<noteq> None \<longrightarrow>
        NotIn x elems =
          Some (fmt_Errorf ''`not in` comparison failed: `%v` in `%v`''
                  [AValue x, AValues elems])"
    using NotIn_loop_error [of x elems elems] by (auto simp: NotIn_def)
  have 6: "compare (VScalar (SInt 3)) (Some \<lparr>cmp_op = eq_op, cmp_term = VScalar (SString ''a'')\<rparr>) =
        Some (fmt_Errorf ''cannot convert `%v` to type int64'' [AKind KString])"
    by (simp add: compare_def compareInt64_def toInt64_def op_defs)
  have 7: "compare (VScalar (SInt 3)) (Some \<lparr>cmp_op = eq_op, cmp_term = VScalar (SInt 3)\<rparr>) = None"
    by (simp add: compare_def compareInt64_def toInt64_def op_defs)
  have 8: "In (VScalar (SInt 3)) [VScalar (SString ''a''), VScalar (SInt 3)] = None"
    by (simp add: In_def newCmpField_eq 6 7)
  have 9: "NotIn (VScalar (SInt 3)) [VScalar (SString ''a'')] = None"
    by (simp add: NotIn_def newCmpField_eq 6)
  from 1 2 3 4 5 6 8 9 show ?thesis by blast
qed

theorem In_NotIn_swallow_errors_witness:
  "compare (VScalar (SInt 3)) (Some \<lparr>cmp_op = eq_op, cmp_term = VScalar (SInt 3)\<rparr>) = None
   \<and> In (VScalar (SInt 3)) [VScalar (SString ''a''), VScalar (SInt 3)] = None
   \<and> compare (VScalar (SInt 3)) (Some \<lparr>cmp_op = eq_op, cmp_term = VScalar (SString ''a'')\<rparr>)
       \<noteq> None
   \<and> NotIn (VScalar (SInt 3)) [VScalar (SString ''a'')] = None"
proof -
  have a: "compare (VScalar (SInt 3)) (Some \<lparr>cmp_op = eq_op, cmp_term = VScalar (SString ''a'')\<rparr>)
      \<noteq> None"
    by (simp add: compare_def compareInt64_def toInt64_def op_defs)
  have b: "compare (VScalar (SInt 3)) (Some \<lparr>cmp_op = eq_op, cmp_term = VScalar (SInt 3)\<rparr>) = None"
    by (simp add: compare_def compareInt64_def toInt64_def op_defs)
  have e1: "\<exists>c \<in> set [VScalar (SString ''a''), VScalar (SInt 3)].
       compare (VScalar (SInt 3)) (Some \<lparr>cmp_op = eq_op, cmp_term = c\<rparr>) = None"
    using b by simp
  have e2: "\<forall>c \<in> set [VScalar (SString ''a'')].
       compare (VScalar (SInt 3)) (Some \<lparr>cmp_op = eq_op, cmp_term = c\<rparr>) \<noteq> None"
    using a by simp
  note i = In_NotIn_swallow_errors [THEN conjunct2, THEN conjunct1]
  note n = In_NotIn_swallow_errors
    [THEN conjunct2, THEN conjunct2, THEN conjunct2, THEN conjunct1]
  have r1: "In (VScalar (SInt 3)) [VScalar (SString ''a''), VScalar (SInt 3)] = None"
    using e1 by (simp only: i)
  have r2: "NotIn (VScalar (SInt 3)) [VScalar (SString ''a'')] = None"
    using e2 by (simp only: n)
  from a b r1 r2 show ?thesis by blast
qed

section \<open>NaN and the conversion to float64\<close>

text \<open>
  A value packed from a sign, an exponent below \<open>2^11\<close> and a mantissa below \<open>2^52\<close>
  has that exponent and that mantissa. So a \<^verbatim>\<open>float32\<close> converts to a NaN exactly when
  it is one.
\<close>

lemma len64: "LENGTH(64) = 64" by simp

lemma fields_div_mod:
  fixes K :: nat
  assumes "m < K" and "e < 2048"
  shows "((S * (2048 * K) + e * K + m) div K) mod 2048 = e"
    and "(S * (2048 * K) + e * K + m) mod K = m"
proof -
  have eq: "S * (2048 * K) + e * K + m = (S * 2048 + e) * K + m"
    by (simp add: algebra_simps)
  have K: "K \<noteq> 0" using assms(1) by auto
  have "(S * (2048 * K) + e * K + m) div K = S * 2048 + e"
    unfolding eq using assms(1) K by simp
  then show "((S * (2048 * K) + e * K + m) div K) mod 2048 = e"
    using assms(2) by simp
  show "(S * (2048 * K) + e * K + m) mod K = m"
    unfolding eq using assms(1) by simp
qed

lemma f64_pack_fields:
  assumes "e < 2048" and "m < 2 ^ 52"
  shows "f64_exponent (f64_pack s e m) = e" and "f64_mantissa (f64_pack s e m) = m"
proof -
  let ?S = "if s then (1::nat) else 0"
  let ?n = "?S * (2048 * 2 ^ 52) + e * 2 ^ 52 + m"
  have n: "(if s then 2 ^ 63 else 0) + e * 2 ^ 52 + m = ?n" by simp
  have "e * 2 ^ 52 \<le> 2047 * 2 ^ 52" using assms(1) by simp
  then have b: "?n < 2 ^ 64" using assms(2) by (cases s) simp_all
  have u: "unat (f64_pack s e m) = ?n"
    unfolding f64_pack_def n using b by (simp only: unat_of_nat len64 mod_less)
  show "f64_exponent (f64_pack s e m) = e"
    unfolding f64_exponent_def u using fields_div_mod(1) [OF assms(2) assms(1), of ?S] by simp
  show "f64_mantissa (f64_pack s e m) = m"
    unfolding f64_mantissa_def u using fields_div_mod(2) [OF assms(2) assms(1), of ?S] by simp
qed

lemma top_bit_bounds: "0 < n \<Longrightarrow> 2 ^ top_bit n \<le> n \<and> n < 2 ^ (top_bit n + 1)"
proof (induction n rule: top_bit.induct)
  case (1 n)
  show ?case
  proof (cases "n < 2")
    case True
    with "1.prems" have "n = 1" by simp
    then show ?thesis by (simp add: top_bit.simps)
  next
    case False
    then have "0 < n div 2" by simp
    with "1.IH" False have ih: "2 ^ top_bit (n div 2) \<le> n div 2"
      "n div 2 < 2 ^ (top_bit (n div 2) + 1)" by simp_all
    have t: "top_bit n = Suc (top_bit (n div 2))" using False by (simp add: top_bit.simps)
    from ih show ?thesis unfolding t by simp linarith
  qed
qed

lemma f32_to_f64_isNaN: "f64_isNaN (f32_to_f64 w) \<longleftrightarrow> f32_isNaN w"
proof -
  let ?e = "f32_exponent w" and ?m = "f32_mantissa w" and ?s = "f32_sign w"
  have m: "?m < 2 ^ 23" by (simp add: f32_mantissa_def)
  have e: "?e < 256" by (simp add: f32_exponent_def)
  have m29: "?m * 2 ^ 29 < 2 ^ 52"
  proof -
    have "?m * 2 ^ 29 < 2 ^ 23 * 2 ^ 29" using m by simp
    then show ?thesis by simp
  qed
  show ?thesis
  proof (cases "?e = 255")
    case True
    then show ?thesis
      using f64_pack_fields [of 2047 "?m * 2 ^ 29" ?s] m29
      by (simp add: f32_to_f64_def f64_isNaN_def f32_isNaN_def)
  next
    case nan: False
    show ?thesis
    proof (cases "?e = 0")
      case False
      with nan e have "?e + 896 < 2047" by simp
      then show ?thesis
        using f64_pack_fields [of "?e + 896" "?m * 2 ^ 29" ?s] m29 nan False
        by (simp add: f32_to_f64_def f64_isNaN_def f32_isNaN_def)
    next
      case True
      show ?thesis
      proof (cases "?m = 0")
        case True
        then show ?thesis
          using f64_pack_fields [of 0 0 ?s] nan \<open>?e = 0\<close>
          by (simp add: f32_to_f64_def f64_isNaN_def f32_isNaN_def)
      next
        case False
        let ?p = "top_bit ?m"
        from False top_bit_bounds [of ?m]
        have p: "2 ^ ?p \<le> ?m" "?m < 2 ^ (?p + 1)" by simp_all
        have "(2::nat) ^ ?p < 2 ^ 23" using p(1) m by linarith
        then have p22: "?p < 23" by (rule power_less_imp_less_exp [rotated]) simp
        have "?m - 2 ^ ?p < 2 ^ ?p" using p by simp
        then have "(?m - 2 ^ ?p) * 2 ^ (52 - ?p) < 2 ^ ?p * 2 ^ (52 - ?p)"
          by simp
        also have "\<dots> = 2 ^ 52" using p22 by (simp flip: power_add)
        finally have mm: "(?m - 2 ^ ?p) * 2 ^ (52 - ?p) < 2 ^ 52" .
        have ee: "?p + 874 < 2048" using p22 by simp
        show ?thesis
          using f64_pack_fields [OF ee mm, of ?s] nan \<open>?e = 0\<close> False p22
          by (simp add: f32_to_f64_def f64_isNaN_def f32_isNaN_def Let_def)
      qed
    qed
  qed
qed

section \<open>Reflexivity of equal\<close>

text \<open>
  \<^verbatim>\<open>reflect.DeepEqual\<close> finds a value equal to itself exactly when the value is deeply
  reflexive.
\<close>

lemma scalar_equal_refl: "scalar_equal a a \<longleftrightarrow> deeply_reflexive (VScalar a)"
  by (cases a) (simp_all add: scalar_equal_def f32_eq_def f64_eq_def)

lemma list_all2_refl_iff:
  "(\<And>x. x \<in> set xs \<Longrightarrow> P x x = Q x) \<Longrightarrow> list_all2 P xs xs = list_all Q xs"
  by (induction xs) auto

lemma deepValueEqual_refl: "deepValueEqual x x \<longleftrightarrow> deeply_reflexive x"
proof (induction x)
  case VNil
  show ?case by (subst deepValueEqual.simps) (simp add: IsValid_def)
next
  case (VScalar a)
  show ?case using scalar_equal_refl [of a]
    by (subst deepValueEqual.simps) (simp add: IsValid_def)
next
  case (VStruct name fs)
  then show ?case using list_all2_refl_iff [of fs deepValueEqual deeply_reflexive]
    by (subst deepValueEqual.simps) (simp add: IsValid_def)
next
  case (VArray ty xs)
  then show ?case using list_all2_refl_iff [of xs deepValueEqual deeply_reflexive]
    by (subst deepValueEqual.simps) (simp add: IsValid_def)
next
  case (VIface v)
  then show ?case
    by (subst deepValueEqual.simps) (cases "v = VNil"; simp add: IsValid_def)
qed (subst deepValueEqual.simps, simp add: IsValid_def)+

lemma DeepEqual_refl: "DeepEqual x x \<longleftrightarrow> deeply_reflexive x"
  by (cases "x = VNil") (simp_all add: DeepEqual_def deepValueEqual_refl)

text \<open>Integers, strings and times are deeply reflexive; a float is unless it is NaN.\<close>

lemma deeply_reflexive_category:
  "category_of x \<in> {SignedInteger, UnsignedInteger, StringCategory, Timestamp} \<Longrightarrow>
     deeply_reflexive x"
proof (cases x)
  case (VScalar a)
  assume "category_of x \<in> {SignedInteger, UnsignedInteger, StringCategory, Timestamp}"
  then show ?thesis using VScalar by (cases a) (simp_all add: category_of_def)
qed (simp_all add: category_of_def)

lemma deeply_reflexive_float:
  "category_of x = FloatingPoint \<Longrightarrow> deeply_reflexive x \<longleftrightarrow> \<not> f64_isNaN (Value_Float x)"
proof (cases x)
  case (VScalar a)
  assume "category_of x = FloatingPoint"
  then show ?thesis using VScalar
    by (cases a) (simp_all add: category_of_def f32_to_f64_isNaN)
qed (simp_all add: category_of_def)

text \<open>
  C1 as stated fails: a NaN is a \<^verbatim>\<open>float64\<close>, and \<^verbatim>\<open>compare\<close> with equal fails on it
  against itself, with the error of a failed comparison.
\<close>

theorem compare_eq_NaN_counterexample:
  "compare (VScalar (SFloat64 0x7FF8000000000000))
     (Some \<lparr>cmp_op = eq_op, cmp_term = VScalar (SFloat64 0x7FF8000000000000)\<rparr>) =
   Some (fmt_Errorf ''`%s` comparison failed: `%v` is not equal to `%v`''
           [AString ''eq'', AValue (VScalar (SFloat64 0x7FF8000000000000)),
            AValue (VScalar (SFloat64 0x7FF8000000000000))])"
  by (simp add: compare_def compareFloat64_def toFloat64_def f64_eq_def f64_isNaN_def
      f64_exponent_def f64_mantissa_def cmpErrs_def cmpOps_def op_defs)

text \<open>
  C1, amended. \<^verbatim>\<open>compare(x, eq, x)\<close> succeeds exactly when \<open>x\<close> is deeply reflexive:
  always for a signed integer, an unsigned integer, a string and a time; for a float
  exactly when it is not NaN (a \<^verbatim>\<open>float32\<close> is NaN exactly when the \<^verbatim>\<open>float64\<close> that
  \<^verbatim>\<open>compare\<close> converts it to is); for an opaque value unless it is, or holds outside
  pointers, slices and maps, a NaN or a function that is not nil.
\<close>

theorem compare_eq_self_iff:
  "(compare x (Some \<lparr>cmp_op = eq_op, cmp_term = x\<rparr>) = None \<longleftrightarrow> deeply_reflexive x)
   \<and> (category_of x \<in> {SignedInteger, UnsignedInteger, StringCategory, Timestamp} \<longrightarrow>
        compare x (Some \<lparr>cmp_op = eq_op, cmp_term = x\<rparr>) = None)
   \<and> (compare (VScalar (SFloat64 w)) (Some \<lparr>cmp_op = eq_op, cmp_term = VScalar (SFloat64 w)\<rparr>)
          = None \<longleftrightarrow> \<not> f64_isNaN w)
   \<and> (compare (VScalar (SFloat32 u)) (Some \<lparr>cmp_op = eq_op, cmp_term = VScalar (SFloat32 u)\<rparr>)
          = None \<longleftrightarrow> \<not> f32_isNaN u)"
proof -
  have v: "valid_op eq_op" by (simp add: valid_op_def)
  have main: "compare y (Some \<lparr>cmp_op = eq_op, cmp_term = y\<rparr>) = None \<longleftrightarrow> deeply_reflexive y"
    for y
  proof (cases "category_of y")
    case SignedInteger
    then show ?thesis using deeply_reflexive_category [of y]
      by (simp add: compare_dispatch [OF v] compareInt64_def toInt64_category)
  next
    case UnsignedInteger
    then show ?thesis using deeply_reflexive_category [of y]
      by (simp add: compare_dispatch [OF v] compareUint64_def toUint64_category)
  next
    case FloatingPoint
    then show ?thesis using deeply_reflexive_float [of y]
      by (simp add: compare_dispatch [OF v] compareFloat64_def toFloat64_category f64_eq_def)
  next
    case StringCategory
    then show ?thesis using deeply_reflexive_category [of y]
      by (simp add: compare_dispatch [OF v] compareString_def toString_category)
  next
    case Timestamp
    then obtain t where t: "y = VTime t"
      using category_of_Timestamp by blast
    show ?thesis using Timestamp unfolding t
      by (simp add: compare_dispatch [OF v] compareTime_def toTime_def Time_Equal_def)
  next
    case Opaque
    then show ?thesis
      by (simp add: compare_dispatch [OF v] compareInterface_def equals_def equal'_def DeepEqual_refl)
  qed
  have cat: "category_of x \<in> {SignedInteger, UnsignedInteger, StringCategory, Timestamp} \<longrightarrow>
        compare x (Some \<lparr>cmp_op = eq_op, cmp_term = x\<rparr>) = None"
    using main [of x] deeply_reflexive_category [of x] by blast
  show ?thesis
    using main [of x] cat main [of "VScalar (SFloat64 w)"] main [of "VScalar (SFloat32 u)"]
    by simp
qed

theorem compare_eq_self_iff_witness:
  "deeply_reflexive
     (VStruct ''T'' [VScalar (SInt 1), VIface VNil, VScalar (SFloat64 0x3FF0000000000000)])
   \<and> compare (VStruct ''T'' [VScalar (SInt 1), VIface VNil, VScalar (SFloat64 0x3FF0000000000000)])
       (Some \<lparr>cmp_op = eq_op,
              cmp_term = VStruct ''T''
                [VScalar (SInt 1), VIface VNil, VScalar (SFloat64 0x3FF0000000000000)]\<rparr>) = None
   \<and> category_of (VScalar (SInt8 (- 1)))
       \<in> {SignedInteger, UnsignedInteger, StringCategory, Timestamp}
   \<and> compare (VScalar (SInt8 (- 1)))
       (Some \<lparr>cmp_op = eq_op, cmp_term = VScalar (SInt8 (- 1))\<rparr>) = None
   \<and> \<not> f32_isNaN 0x3F800000
   \<and> compare (VScalar (SFloat32 0x3F800000))
       (Some \<lparr>cmp_op = eq_op, cmp_term = VScalar (SFloat32 0x3F800000)\<rparr>) = None"
proof -
  have 1: "deeply_reflexive
      (VStruct ''T'' [VScalar (SInt 1), VIface VNil, VScalar (SFloat64 0x3FF0000000000000)])"
    by (simp add: f64_isNaN_def f64_exponent_def)
  have 2: "category_of (VScalar (SInt8 (- 1)))
      \<in> {SignedInteger, UnsignedInteger, StringCategory, Timestamp}"
    by (simp add: category_of_def)
  have 3: "\<not> f32_isNaN 0x3F800000"
    by (simp add: f32_isNaN_def f32_exponent_def)
  show ?thesis
    using 1 2 3
      compare_eq_self_iff
        [of "VStruct ''T'' [VScalar (SInt 1), VIface VNil, VScalar (SFloat64 0x3FF0000000000000)]"]
      compare_eq_self_iff [of "VScalar (SInt8 (- 1))" _ "0x3F800000"]
    by simp
qed

section \<open>Presence checks\<close>

text \<open>
  C6. \<^verbatim>\<open>Required("")\<close> fails with the empty-argument error \<open>errEmpty\<close>;
  \<^verbatim>\<open>Required("a")\<close> succeeds; \<^verbatim>\<open>Required([]string{})\<close>, an empty slice that is not nil,
  fails; \<^verbatim>\<open>Required([]string{""})\<close>, a slice of length one that holds the empty string,
  succeeds: a slice is empty by its length, whatever it holds. \<open>a\<close> is the address of
  the slice's array, any.
\<close>

theorem Required_strings_and_slices:
  "Required [VScalar (SString [])] = Return (Some errEmpty)
   \<and> Required [VScalar (SString ''a'')] = Return None
   \<and> Required [VSlice TString a []] = Return (Some errEmpty)
   \<and> Required [VSlice TString a [VScalar (SString [])]] = Return None"
  by (simp add: isEmpty.simps)

text \<open>
  C8. For a typed nil pointer, whatever its element type, \<^verbatim>\<open>isEmpty\<close> panics: the
  pointer branch calls \<^verbatim>\<open>Interface()\<close> on the zero \<^verbatim>\<open>reflect.Value\<close> that \<^verbatim>\<open>Elem()\<close>
  returns. So \<^verbatim>\<open>Required\<close> with such a pointer as its first argument panics; it
  returns neither the empty-argument error nor nil, whatever the arguments after it.
\<close>

theorem Required_nil_pointer_panics:
  "isEmpty (VNilPtr ty) = Panic ''reflect: call of reflect.Value.Interface on zero Value''
   \<and> Required (VNilPtr ty # args) =
       Panic ''reflect: call of reflect.Value.Interface on zero Value''
   \<and> (\<forall>r. Required (VNilPtr ty # args) \<noteq> Return r)"
  by (simp add: isEmpty.simps IsValid_def)

section \<open>Strings of white space\<close>

text \<open>The 25 white space runes, and how each is read back from its encoding.\<close>

lemma IsSpace_cases:
  assumes "IsSpace r"
  shows "r \<in> {0x09, 0x0A, 0x0B, 0x0C, 0x0D, 0x20, 0x85, 0xA0, 0x1680,
               0x2000, 0x2001, 0x2002, 0x2003, 0x2004, 0x2005, 0x2006, 0x2007, 0x2008, 0x2009,
               0x200A, 0x2028, 0x2029, 0x202F, 0x205F, 0x3000}"
proof (cases "r \<le> 0xFF")
  case True
  then show ?thesis using assms by (auto simp: IsSpace_def)
next
  case False
  then have d: "r = 0x1680 \<or> (0x2000 \<le> r \<and> r \<le> 0x200A) \<or> r = 0x2028 \<or> r = 0x2029
           \<or> r = 0x202F \<or> r = 0x205F \<or> r = 0x3000"
    using assms by (simp add: IsSpace_def)
  have lo: "0x2000 \<le> r \<and> r \<le> 0x2005 \<Longrightarrow>
    r \<in> {0x2000, 0x2001, 0x2002, 0x2003, 0x2004, 0x2005}"
    by auto
  have hi: "0x2006 \<le> r \<and> r \<le> 0x200A \<Longrightarrow>
    r \<in> {0x2006, 0x2007, 0x2008, 0x2009, 0x200A}"
    by auto
  have "0x2000 \<le> r \<and> r \<le> 0x200A \<Longrightarrow>
    r \<in> {0x2000, 0x2001, 0x2002, 0x2003, 0x2004, 0x2005, 0x2006, 0x2007, 0x2008, 0x2009, 0x200A}"
    using lo hi by (cases "r \<le> 0x2005") simp_all
  with d show ?thesis by blast
qed

lemma decode_space:
  assumes "IsSpace r"
  shows "DecodeRuneInString (EncodeRune r @ s) = (r, length (EncodeRune r)) \<and> EncodeRune r \<noteq> []"
  using IsSpace_cases [OF assms]
  by (elim insertE emptyE)
     (simp_all add: DecodeRuneInString_def EncodeRune_def accept_lo_def accept_hi_def is_cont_def)


lemma indexFunc_loop_white_space:
  "white_space_only s \<Longrightarrow> indexFunc_loop i s IsSpace False = - 1"
proof (induction arbitrary: i rule: white_space_only.induct)
  case ws_empty
  show ?case by (subst indexFunc_loop.simps) simp
next
  case (ws_rune r s)
  from decode_space [OF ws_rune.hyps(1), of s]
  have d: "DecodeRuneInString (EncodeRune r @ s) = (r, length (EncodeRune r))"
    and n: "EncodeRune r \<noteq> []"
    by simp_all
  show ?case
    using ws_rune.hyps(1) ws_rune.IH n
    by (subst indexFunc_loop.simps) (simp add: d)
qed

lemma TrimSpace_white_space: "white_space_only s \<Longrightarrow> TrimSpace s = []"
  by (simp add: TrimSpace_def TrimFunc_def TrimLeftFunc_def indexFunc_def
      indexFunc_loop_white_space TrimRightFunc_def lastIndexFunc.simps)

lemma isEmptyStr_white_space: "white_space_only s \<Longrightarrow> isEmptyStr s"
  by (simp add: isEmptyStr_def TrimSpace_white_space)

lemma stripSpaces_white_space: "white_space_only s \<Longrightarrow> stripSpaces s = []"
proof (induction rule: white_space_only.induct)
  case ws_empty
  show ?case unfolding stripSpaces_def by (subst strings_Map.simps) simp
next
  case (ws_rune r s)
  from decode_space [OF ws_rune.hyps(1), of s]
  have d: "DecodeRuneInString (EncodeRune r @ s) = (r, length (EncodeRune r))"
    and n: "EncodeRune r \<noteq> []"
    by simp_all
  show ?case
    using ws_rune.hyps(1) ws_rune.IH n unfolding stripSpaces_def
    by (subst strings_Map.simps) (simp add: d)
qed

lemma isEmptyStr_Nil: "isEmptyStr []"
  using isEmptyStr_white_space [OF ws_empty] .

lemma requiredErr_messages:
  "requiredErr True ''match term cannot be empty'' =
     Some (errors_New ''match term cannot be empty'')"
  "requiredErr True ''email address cannot be empty'' =
     Some (errors_New ''email address cannot be empty'')"
  "requiredErr True ''email address list cannot be empty'' =
     Some (errors_New ''email address list cannot be empty'')"
  "requiredErr True ''URL cannot be empty'' = Some (errors_New ''URL cannot be empty'')"
  "requiredErr True ''IBAN cannot be empty'' = Some (errors_New ''IBAN cannot be empty'')"
  "requiredErr True ''VAT number cannot be empty'' =
     Some (errors_New ''VAT number cannot be empty'')"
  "requiredErr True ''IP address cannot be empty'' =
     Some (errors_New ''IP address cannot be empty'')"
  "requiredErr True ''MAC address cannot be empty'' =
     Some (errors_New ''MAC address cannot be empty'')"
  by code_simp+

text \<open>
  C9. Every string check tests its value with \<^verbatim>\<open>isEmptyStr\<close>, which trims white space
  first. For every string \<open>s\<close> of white space only, every pattern \<open>p\<close> and whatever the
  regular expressions and parsers do (\<open>ext\<close> is arbitrary, so none of them is asked),
  \<^verbatim>\<open>Matches(s, p, false)\<close> succeeds and \<^verbatim>\<open>Matches(s, p, true)\<close> fails with the error of
  an empty value, \<^verbatim>\<open>match term cannot be empty\<close>. The same holds for \<^verbatim>\<open>Email\<close>,
  \<^verbatim>\<open>EmailList\<close> (which strips all white space before the test), \<^verbatim>\<open>URL\<close>, \<^verbatim>\<open>IBAN\<close>,
  \<^verbatim>\<open>VAT\<close>, \<^verbatim>\<open>IP\<close> and \<^verbatim>\<open>MAC\<close>, each with its own message.
\<close>

theorem white_space_is_empty_value:
  assumes "white_space_only s"
  shows "isEmptyStr s
       \<and> Matches ext s p False = None
       \<and> Matches ext s p True = Some (errors_New ''match term cannot be empty'')
       \<and> Email ext s False = None
       \<and> Email ext s True = Some (errors_New ''email address cannot be empty'')
       \<and> EmailList ext s False = None
       \<and> EmailList ext s True = Some (errors_New ''email address list cannot be empty'')
       \<and> URL ext s False = None
       \<and> URL ext s True = Some (errors_New ''URL cannot be empty'')
       \<and> IBAN ext s False = None
       \<and> IBAN ext s True = Some (errors_New ''IBAN cannot be empty'')
       \<and> VAT ext s False = None
       \<and> VAT ext s True = Some (errors_New ''VAT number cannot be empty'')
       \<and> IP ext s False = None
       \<and> IP ext s True = Some (errors_New ''IP address cannot be empty'')
       \<and> MAC ext s False = None
       \<and> MAC ext s True = Some (errors_New ''MAC address cannot be empty'')"
proof -
  have e: "isEmptyStr s" using assms by (rule isEmptyStr_white_space)
  have l: "isEmptyStr (stripSpaces s)"
    using assms by (simp add: stripSpaces_white_space isEmptyStr_Nil)
  have f: "requiredErr False m = None" for m
    by (simp add: requiredErr_def)
  show ?thesis
    using e l
    by (simp add: Matches_def Email_def EmailList_def URL_def IBAN_def VAT_def IP_def MAC_def
        f requiredErr_messages)
qed

theorem white_space_is_empty_value_witness:
  "white_space_only [CHR 0x20, CHR 0x09, CHR 0xC2, CHR 0xA0]
   \<and> Matches \<lparr>regexp_MatchString = (\<lambda>pattern s. Inr False),
               mail_ParseAddress = (\<lambda>s. None),
               regURL_MatchString = (\<lambda>s. False),
               regIBAN_MatchString = (\<lambda>s. False),
               regVAT_MatchString = (\<lambda>s. False),
               net_ParseIP = (\<lambda>s. False),
               net_ParseMAC = (\<lambda>s. None)\<rparr>
        [CHR 0x20, CHR 0x09, CHR 0xC2, CHR 0xA0] ''a+'' False = None
   \<and> Matches \<lparr>regexp_MatchString = (\<lambda>pattern s. Inr False),
               mail_ParseAddress = (\<lambda>s. None),
               regURL_MatchString = (\<lambda>s. False),
               regIBAN_MatchString = (\<lambda>s. False),
               regVAT_MatchString = (\<lambda>s. False),
               net_ParseIP = (\<lambda>s. False),
               net_ParseMAC = (\<lambda>s. None)\<rparr>
        [CHR 0x20, CHR 0x09, CHR 0xC2, CHR 0xA0] ''a+'' True =
       Some (errors_New ''match term cannot be empty'')"
proof -
  have "white_space_only (EncodeRune 0x20 @ EncodeRune 0x09 @ EncodeRune 0xA0 @ [])"
    by (intro ws_rune ws_empty) (simp_all add: IsSpace_def)
  moreover have "EncodeRune 0x20 = [CHR 0x20]" "EncodeRune 0x09 = [CHR 0x09]"
    "EncodeRune 0xA0 = [CHR 0xC2, CHR 0xA0]"
    by code_simp+
  ultimately have w: "white_space_only [CHR 0x20, CHR 0x09, CHR 0xC2, CHR 0xA0]"
    by simp
  show ?thesis
    using w white_space_is_empty_value [OF w] by simp
qed

end
